theory Spec2Isabelle
  imports Complex_Main "HOL-Library.Log_Nat"
begin

section \<open>JavaScript numbers\<close>

text \<open>
  A JavaScript number is an IEEE 754 binary64 value: a finite value (a rational that the
  format represents), one of the two infinities, or \<^verbatim>\<open>NaN\<close>. The two zeros are identified;
  no operation below tells them apart. Sums and differences are the exact results rounded
  to the nearest representable value, ties to the even significand.
\<close>

datatype number = NaN | PosInf | NegInf | Fin rat

definition pow2 :: "int \<Rightarrow> rat" where
  "pow2 e = (if 0 \<le> e then 2 ^ nat e else 1 / 2 ^ nat (- e))"

text \<open>For a positive rational \<open>a\<close>, the integer \<open>k\<close> with \<open>pow2 k \<le> a < pow2 (k + 1)\<close>.\<close>

definition ilog2 :: "rat \<Rightarrow> int" where
  "ilog2 a =
     (let k = bitlen (fst (quotient_of a)) - bitlen (snd (quotient_of a))
      in if pow2 k \<le> a then k else k - 1)"

definition round_half_even :: "rat \<Rightarrow> int" where
  "round_half_even q =
     (let m = \<lfloor>q\<rfloor>; f = q - of_int m
      in if f < 1 / 2 then m else if 1 / 2 < f then m + 1 else if even m then m else m + 1)"

text \<open>
  Rounding of an exact result to binary64: the significand has 53 bits, the least exponent
  of the last place is \<open>-1074\<close> (subnormal values), and a rounded magnitude of
  \<open>pow2 1024\<close> or more overflows to an infinity.
\<close>

definition to_double :: "rat \<Rightarrow> number" where
  "to_double r =
     (if r = 0 then Fin 0
      else
        let a = \<bar>r\<bar>;
            e = max (ilog2 a - 52) (- 1074);
            v = of_int (round_half_even (a / pow2 e)) * pow2 e
        in if pow2 1024 \<le> v then (if r < 0 then NegInf else PosInf)
           else Fin (if r < 0 then - v else v))"

text \<open>The operators \<^verbatim>\<open>+\<close>, unary and binary \<^verbatim>\<open>-\<close>, \<^verbatim>\<open><\<close>, \<^verbatim>\<open>>\<close> and \<^verbatim>\<open><=\<close> on numbers, and the
  truthiness of a number (\<^verbatim>\<open>0\<close> and \<^verbatim>\<open>NaN\<close> are falsy).\<close>

fun num_add :: "number \<Rightarrow> number \<Rightarrow> number" where
  "num_add (Fin a) (Fin b) = to_double (a + b)"
| "num_add NaN y = NaN"
| "num_add x NaN = NaN"
| "num_add PosInf NegInf = NaN"
| "num_add NegInf PosInf = NaN"
| "num_add PosInf y = PosInf"
| "num_add x PosInf = PosInf"
| "num_add NegInf y = NegInf"
| "num_add x NegInf = NegInf"

fun num_neg :: "number \<Rightarrow> number" where
  "num_neg NaN = NaN"
| "num_neg PosInf = NegInf"
| "num_neg NegInf = PosInf"
| "num_neg (Fin a) = Fin (- a)"

definition num_sub :: "number \<Rightarrow> number \<Rightarrow> number" where
  "num_sub x y = num_add x (num_neg y)"

fun num_less :: "number \<Rightarrow> number \<Rightarrow> bool" where
  "num_less (Fin a) (Fin b) = (a < b)"
| "num_less NaN y = False"
| "num_less x NaN = False"
| "num_less PosInf y = False"
| "num_less x NegInf = False"
| "num_less x PosInf = True"
| "num_less NegInf y = True"

definition num_greater :: "number \<Rightarrow> number \<Rightarrow> bool" where
  "num_greater x y = num_less y x"

definition num_le :: "number \<Rightarrow> number \<Rightarrow> bool" where
  "num_le x y = (x \<noteq> NaN \<and> y \<noteq> NaN \<and> (num_less x y \<or> x = y))"

definition num_falsy :: "number \<Rightarrow> bool" where
  "num_falsy x = (x = NaN \<or> x = Fin 0)"

section \<open>Data model: the seller document (src/models/Seller.js)\<close>

text \<open>
  Conventions of the embedding.
  \<^item> A JavaScript \<^verbatim>\<open>Date\<close> is its number of milliseconds since the epoch, an \<open>int\<close>.
  \<^item> Sums of money are \<open>number\<close>s; the counters no handler below computes with are \<open>int\<close>s.
    A withdrawal whose \<^verbatim>\<open>amount\<close> is absent adds as \<^verbatim>\<open>NaN\<close> and is modelled with that
    amount.
  \<^item> A string-valued field that may be \<^verbatim>\<open>undefined\<close> or \<^verbatim>\<open>null\<close> is an \<open>option\<close>, \<open>None\<close>
    standing for both; a request field is modelled at the type the handler expects (a string
    or a number), so a JSON value of another type is outside the model.
  \<^item> The collection of sellers is the list of its documents; \<^verbatim>\<open>findById\<close>, \<^verbatim>\<open>findOne\<close> and
    \<^verbatim>\<open>save\<close> are list operations. Of what the schema asks of the object-document mapper, the
    paths it declares, the defaults, the lower-casing of \<^verbatim>\<open>email\<close> and the two pre-save hooks
    are modelled; casting of identifiers, validation, unique indexes and connection failures
    are not: a \<^verbatim>\<open>save\<close> always succeeds.
\<close>

datatype seller_status = Pending | Approved | Rejected | Inactive | Suspended

datatype withdrawal_status = WPending | WApproved | WRejected | WCompleted

record bank_details =
  bankName :: string
  accountHolder :: string
  accountNumber :: string
  ifscCode :: string

record withdrawal =
  amount :: number
  requestDate :: int
  w_status :: withdrawal_status
  w_bankDetails :: bank_details
  completedDate :: "int option"
  w_notes :: "string option"

text \<open>The stored document: the paths of \<^verbatim>\<open>sellerSchema\<close>, and no other.\<close>

record seller =
  sid :: nat
  name :: string
  email :: string
  phone :: string
  password :: string
  aadhaarNumber :: string
  aadhaarDocument :: string
  bankDetails :: bank_details
  status :: seller_status
  isApproved :: bool
  rejectionReason :: "string option"
  approvedAt :: "int option"
  totalEarnings :: number
  totalOrders :: int
  totalProducts :: int
  rating :: int
  reviewCount :: int
  withdrawals :: "withdrawal list"
  createdAt :: int
  updatedAt :: int

subsection \<open>Properties outside the schema\<close>

text \<open>
  The handlers of src/routes/seller.js read and write \<^verbatim>\<open>seller.emailVerificationOTP\<close> and
  \<^verbatim>\<open>seller.isEmailVerified\<close>. The schema declares neither path and is strict, so the mapper
  drops them from the object given to \<^verbatim>\<open>new Seller\<close>, never writes them to the collection
  and never reads them back: on a document in a handler they are plain properties of the
  object, \<^verbatim>\<open>undefined\<close> until the handler assigns them and lost when the request ends.
  A \<open>document\<close> is the stored part \<open>doc\<close> with the two properties (\<open>None\<close> is \<^verbatim>\<open>undefined\<close>);
  \<open>hydrate\<close> is the document a query returns.
\<close>

text \<open>A date-valued property: \<^verbatim>\<open>undefined\<close>, \<^verbatim>\<open>null\<close> or a date.\<close>

datatype js_date = Undefined | Null | At int

record otp_record =
  code :: "string option"
  expiresAt :: js_date
  attempts :: "nat option"

record document =
  doc :: seller
  emailVerificationOTP :: "otp_record option"
  isEmailVerified :: "bool option"

definition hydrate :: "seller \<Rightarrow> document" where
  "hydrate s = \<lparr>doc = s, emailVerificationOTP = None, isEmailVerified = None\<rparr>"

subsection \<open>The collection\<close>

text \<open>
  The schema declares \<^verbatim>\<open>email\<close> with \<^verbatim>\<open>lowercase: true\<close>: the mapper applies
  \<^verbatim>\<open>String.prototype.toLowerCase\<close> to the value when a document is built and when a query
  filters on the field. That function of the language is the parameter \<open>toLowerCase\<close> of
  the operations that need it.
\<close>

definition findById :: "nat \<Rightarrow> seller list \<Rightarrow> seller option" where
  "findById i sellers = find (\<lambda>s. sid s = i) sellers"

definition findOne_email :: "(string \<Rightarrow> string) \<Rightarrow> string \<Rightarrow> seller list \<Rightarrow> seller option" where
  "findOne_email toLowerCase e sellers = find (\<lambda>s. email s = toLowerCase e) sellers"

definition findOne_aadhaar :: "string \<Rightarrow> seller list \<Rightarrow> seller option" where
  "findOne_aadhaar a sellers = find (\<lambda>s. aadhaarNumber s = a) sellers"

text \<open>
  \<^verbatim>\<open>seller.save()\<close>: the second pre-save hook of the schema stamps \<^verbatim>\<open>updatedAt\<close> with the
  current time, then the document replaces the stored one with the same identifier, or is
  inserted when there is none. The first hook hashes the password only when it was
  modified; \<open>save\<close> is the case where it was not.
\<close>

definition save :: "int \<Rightarrow> seller \<Rightarrow> seller list \<Rightarrow> seller \<times> seller list" where
  "save now s sellers =
     (let s' = s\<lparr>updatedAt := now\<rparr>
      in (s', if \<exists>x \<in> set sellers. sid x = sid s
              then map (\<lambda>x. if sid x = sid s then s' else x) sellers
              else sellers @ [s']))"

text \<open>Saving a document in a handler writes its stored part and keeps its properties.\<close>

definition save_document :: "int \<Rightarrow> document \<Rightarrow> seller list \<Rightarrow> document \<times> seller list" where
  "save_document now d sellers =
     (d\<lparr>doc := fst (save now (doc d) sellers)\<rparr>, snd (save now (doc d) sellers))"

section \<open>HTTP responses\<close>

text \<open>A key whose value is \<^verbatim>\<open>undefined\<close> is left out of the JSON body: \<open>None\<close> below.\<close>

datatype detail =
    NoDetail
  | ErrorText string
  | SellerStatus seller_status
  | Attempts nat
  | AvailableBalance number
  | WithdrawalCreated withdrawal number
  | ApproveView nat string string seller_status bool
  | RejectView nat string string seller_status "string option"
  | StatusView nat string seller_status bool
  | SignupView nat string string seller_status "bool option" string
  | VerifyView nat string string "bool option" seller_status

record response =
  status_code :: nat
  message :: string
  detail :: detail

definition respond :: "nat \<Rightarrow> string \<Rightarrow> detail \<Rightarrow> response" where
  "respond c m d = \<lparr>status_code = c, message = m, detail = d\<rparr>"

section \<open>Withdrawal request (src/routes/seller.js, POST /withdrawals)\<close>

text \<open>
  The balance is recomputed on every request, in the arithmetic of numbers and from left
  to right:
  \<^verbatim>\<open>totalWithdrawn = (req.seller.withdrawals || []).reduce((sum, w) => sum + w.amount, 0)\<close>,
  \<^verbatim>\<open>availableBalance = req.seller.totalEarnings - totalWithdrawn\<close>.
\<close>

definition totalWithdrawn :: "seller \<Rightarrow> number" where
  "totalWithdrawn s = foldl (\<lambda>sum w. num_add sum (amount w)) (Fin 0) (withdrawals s)"

definition availableBalance :: "seller \<Rightarrow> number" where
  "availableBalance s = num_sub (totalEarnings s) (totalWithdrawn s)"

text \<open>
  The handler proper, run on \<^verbatim>\<open>req.seller\<close> once the approval gate has passed.
  \<open>amount_in\<close> is \<^verbatim>\<open>req.body.amount\<close> (\<open>None\<close> when absent), \<open>t_req\<close> the time read by
  \<^verbatim>\<open>new Date()\<close> for \<^verbatim>\<open>requestDate\<close>, \<open>t_save\<close> the time read by the pre-save hook.
  The guard \<^verbatim>\<open>!amount || amount <= 0\<close> comes first, then \<^verbatim>\<open>amount > availableBalance\<close>.
\<close>

definition post_withdrawals ::
  "int \<Rightarrow> int \<Rightarrow> number option \<Rightarrow> seller \<Rightarrow> seller list \<Rightarrow> response \<times> seller list" where
  "post_withdrawals t_req t_save amount_in s sellers =
     (case amount_in of
        None \<Rightarrow> (respond 400 ''Valid amount is required'' NoDetail, sellers)
      | Some a \<Rightarrow>
          if num_falsy a \<or> num_le a (Fin 0)
          then (respond 400 ''Valid amount is required'' NoDetail, sellers)
          else if num_greater a (availableBalance s)
          then (respond 400 ''Insufficient balance'' (AvailableBalance (availableBalance s)),
                sellers)
          else
            let w = \<lparr>amount = a, requestDate = t_req, w_status = WPending,
                     w_bankDetails =
                       \<lparr>bankName = bankName (bankDetails s),
                        accountHolder = accountHolder (bankDetails s),
                        accountNumber = accountNumber (bankDetails s),
                        ifscCode = ifscCode (bankDetails s)\<rparr>,
                     completedDate = None, w_notes = None\<rparr>;
                s' = s\<lparr>withdrawals := withdrawals s @ [w]\<rparr>
            in (respond 201 ''Withdrawal request created successfully''
                  (WithdrawalCreated w (num_sub (availableBalance s) a)),
                snd (save t_save s' sellers)))"

section \<open>OTP generator and validator (utils/otpService.js)\<close>

text \<open>JavaScript truthiness of a string-valued field: absent, \<^verbatim>\<open>null\<close> and \<^verbatim>\<open>""\<close> are falsy.\<close>

definition falsy :: "string option \<Rightarrow> bool" where
  "falsy v = (case v of None \<Rightarrow> True | Some x \<Rightarrow> x = [])"

text \<open>The string held by a field known to be truthy (the empty string otherwise).\<close>

definition str :: "string option \<Rightarrow> string" where
  "str v = (case v of None \<Rightarrow> [] | Some x \<Rightarrow> x)"

text \<open>\<^verbatim>\<open>Number.prototype.toString()\<close> on an integer: its decimal digits.\<close>

definition digit_char :: "nat \<Rightarrow> char" where
  "digit_char d = char_of (48 + d)"

fun digits :: "nat \<Rightarrow> string" where
  "digits n = (if n < 10 then [digit_char n] else digits (n div 10) @ [digit_char (n mod 10)])"

declare digits.simps [simp del]

definition toString :: "int \<Rightarrow> string" where
  "toString n = (if n < 0 then CHR ''-'' # digits (nat (- n)) else digits (nat n))"

text \<open>
  \<^verbatim>\<open>generateOTP = () => Math.floor(100000 + Math.random() * 900000).toString()\<close>.
  The draw of \<^verbatim>\<open>Math.random()\<close> is the argument \<open>r\<close>, a rational in \<open>[0, 1)\<close>.
\<close>

definition generateOTP :: "rat \<Rightarrow> string" where
  "generateOTP r = toString (floor (100000 + r * 900000))"

text \<open>
  \<^verbatim>\<open>generateOTPWithExpiry(expiryMinutes)\<close> returns \<^verbatim>\<open>{code, expiresAt}\<close> with
  \<^verbatim>\<open>expiresAt = new Date(Date.now() + expiryMinutes * 60 * 1000)\<close>; it sets no
  \<^verbatim>\<open>attempts\<close>. \<open>now\<close> is the value of \<^verbatim>\<open>Date.now()\<close>.
\<close>

definition generateOTPWithExpiry :: "rat \<Rightarrow> int \<Rightarrow> int \<Rightarrow> otp_record" where
  "generateOTPWithExpiry r now expiryMinutes =
     \<lparr>code = Some (generateOTP r), expiresAt = At (now + expiryMinutes * 60 * 1000),
      attempts = None\<rparr>"

record validation =
  valid :: bool
  v_message :: string

text \<open>
  The test \<^verbatim>\<open>new Date() > new Date(storedOTP.expiresAt)\<close> at time \<open>now\<close>: a date is compared
  as it is; \<^verbatim>\<open>new Date(null)\<close> is the epoch; \<^verbatim>\<open>new Date(undefined)\<close> is an invalid date,
  which nothing is greater than.
\<close>

definition date_after :: "int \<Rightarrow> js_date \<Rightarrow> bool" where
  "date_after now d = (case d of Undefined \<Rightarrow> False | Null \<Rightarrow> now > 0 | At t \<Rightarrow> now > t)"

text \<open>
  \<^verbatim>\<open>validateOTP(storedOTP, providedOTP)\<close>, with \<open>now\<close> the time read by \<^verbatim>\<open>new Date()\<close>.
  The three checks are in the order of the source.
\<close>

definition validateOTP :: "int \<Rightarrow> otp_record option \<Rightarrow> string \<Rightarrow> validation" where
  "validateOTP now storedOTP providedOTP =
     (case storedOTP of
        None \<Rightarrow> \<lparr>valid = False, v_message = ''No OTP found for this user''\<rparr>
      | Some st \<Rightarrow>
          if falsy (code st)
          then \<lparr>valid = False, v_message = ''No OTP found for this user''\<rparr>
          else if date_after now (expiresAt st)
          then \<lparr>valid = False, v_message = ''OTP has expired''\<rparr>
          else if code st \<noteq> Some providedOTP
          then \<lparr>valid = False, v_message = ''Invalid OTP''\<rparr>
          else \<lparr>valid = True, v_message = ''OTP is valid''\<rparr>)"

section \<open>Email verification (src/routes/seller.js, POST /verify-email)\<close>

text \<open>JavaScript truthiness of a boolean-valued property that may be \<^verbatim>\<open>undefined\<close>.\<close>

definition holds :: "bool option \<Rightarrow> bool" where
  "holds v = (v = Some True)"

text \<open>
  The handler once \<^verbatim>\<open>Seller.findOne\<close> has returned the document \<open>seller\<close>. \<open>t_now\<close> is the
  time at which \<^verbatim>\<open>validateOTP\<close> runs, \<open>t_save\<close> the time of the save. On a failed
  validation the handler reads \<^verbatim>\<open>seller.emailVerificationOTP.attempts\<close>: when the property
  is \<^verbatim>\<open>undefined\<close> that read throws a \<^verbatim>\<open>TypeError\<close>, which the handler's \<^verbatim>\<open>catch\<close> turns
  into a 500 (the error text is the engine's). Otherwise a falsy counter is set to 0, the
  counter is incremented and the document saved, and the answer is 429 once the counter has
  reached 5. The counter is looked at on this branch only.
\<close>

definition verify_email_found ::
  "int \<Rightarrow> int \<Rightarrow> string \<Rightarrow> document \<Rightarrow> seller list \<Rightarrow> response \<times> seller list" where
  "verify_email_found t_now t_save otp seller sellers =
     (if holds (isEmailVerified seller)
      then (respond 400 ''Email is already verified'' NoDetail, sellers)
      else
        let otpValidation = validateOTP t_now (emailVerificationOTP seller) otp
        in if \<not> valid otpValidation
           then
             (case emailVerificationOTP seller of
                None \<Rightarrow>
                  (respond 500 ''Error verifying email'' (ErrorText ''TypeError''), sellers)
              | Some st \<Rightarrow>
                  let n = (case attempts st of None \<Rightarrow> 0 | Some k \<Rightarrow> k) + 1;
                      seller' = seller\<lparr>emailVerificationOTP := Some (st\<lparr>attempts := Some n\<rparr>)\<rparr>
                  in if n \<ge> 5
                     then (respond 429
                             ''Too many failed attempts. Please request a new OTP.'' NoDetail,
                           snd (save_document t_save seller' sellers))
                     else (respond 400 (v_message otpValidation) (Attempts n),
                           snd (save_document t_save seller' sellers)))
           else
             let seller' =
                   seller\<lparr>isEmailVerified := Some True,
                          emailVerificationOTP :=
                            Some \<lparr>code = None, expiresAt = Null, attempts = Some 0\<rparr>\<rparr>;
                 saved = fst (save_document t_save seller' sellers)
             in (respond 200
                   ''Email verified successfully! Please wait for admin approval.''
                   (VerifyView (sid (doc saved)) (name (doc saved)) (email (doc saved))
                      (isEmailVerified saved) (status (doc saved))),
                 snd (save_document t_save seller' sellers)))"

text \<open>The whole handler: the document it works on is the one the query returns.\<close>

definition verify_email ::
  "(string \<Rightarrow> string) \<Rightarrow> int \<Rightarrow> int \<Rightarrow> string option \<Rightarrow> string option \<Rightarrow> seller list
     \<Rightarrow> response \<times> seller list" where
  "verify_email toLowerCase t_now t_save email_in otp_in sellers =
     (if falsy email_in \<or> falsy otp_in
      then (respond 400 ''Email and OTP are required'' NoDetail, sellers)
      else
        case findOne_email toLowerCase (str email_in) sellers of
          None \<Rightarrow> (respond 404 ''Seller not found'' NoDetail, sellers)
        | Some s \<Rightarrow> verify_email_found t_now t_save (str otp_in) (hydrate s) sellers)"

section \<open>Notification sender (utils/emailService.js)\<close>

text \<open>
  A thrown JavaScript error with the two properties \<^verbatim>\<open>isNetworkError\<close> reads. The mail
  provider is outside the program: \<open>provider env k\<close> is the outcome of the \<open>k\<close>-th call
  of \<^verbatim>\<open>gmailClient.users.messages.send\<close> (counted from 0) in the life of the process.
  The body of a mail is kept as the template and its arguments; the MIME text and its
  base64url encoding are not modelled.
\<close>

record js_error =
  e_message :: "string option"
  e_code :: "string option"

datatype send_outcome = Delivered | Fails js_error

datatype html = ApprovalHtml string | RejectionHtml string string | OtpHtml string string

record mail =
  m_from :: string
  m_to :: string
  m_subject :: string
  m_html :: html

record mail_env =
  ADMIN_EMAIL :: "string option"
  oauth_vars :: bool
  provider :: "nat \<Rightarrow> send_outcome"

text \<open>
  The module's state: the two lazily created singletons, the number of provider calls made
  so far, the mails the provider accepted, and the delays slept by the retry helper.
\<close>

record mailer =
  oauth2ClientInstance :: bool
  gmailInstance :: bool
  calls :: nat
  sent :: "mail list"
  slept :: "int list"

definition new_Error :: "string \<Rightarrow> js_error" where
  "new_Error m = \<lparr>e_message = Some m, e_code = None\<rparr>"

definition getOAuth2Client :: "mail_env \<Rightarrow> mailer \<Rightarrow> js_error + mailer" where
  "getOAuth2Client env st =
     (if \<not> oauth2ClientInstance st
      then (if \<not> oauth_vars env
            then Inl (new_Error
              ''Missing OAuth2 environment variables: CLIENT_ID, CLIENT_SECRET, REDIRECT_URI, or REFRESH_TOKEN'')
            else Inr (st\<lparr>oauth2ClientInstance := True\<rparr>))
      else Inr st)"

definition getGmailClient :: "mail_env \<Rightarrow> mailer \<Rightarrow> js_error + mailer" where
  "getGmailClient env st =
     (if \<not> gmailInstance st
      then (case getOAuth2Client env st of
              Inl e \<Rightarrow> Inl e
            | Inr st' \<Rightarrow> Inr (st'\<lparr>gmailInstance := True\<rparr>))
      else Inr st)"

text \<open>\<^verbatim>\<open>String.prototype.includes\<close>.\<close>

fun str_includes :: "string \<Rightarrow> string \<Rightarrow> bool" where
  "str_includes [] sub = (sub = [])"
| "str_includes (c # cs) sub = (take (length sub) (c # cs) = sub \<or> str_includes cs sub)"

definition isNetworkError :: "js_error \<Rightarrow> bool" where
  "isNetworkError error =
     (let message = (case e_message error of None \<Rightarrow> [] | Some m \<Rightarrow> m);
          code = (case e_code error of None \<Rightarrow> [] | Some c \<Rightarrow> c)
      in str_includes message ''ETIMEDOUT'' \<or>
         str_includes message ''ECONNREFUSED'' \<or>
         str_includes message ''ENOTFOUND'' \<or>
         str_includes message ''socket hang up'' \<or>
         code = ''ETIMEDOUT'' \<or>
         code = ''ECONNREFUSED'' \<or>
         code = ''ENOTFOUND'')"

text \<open>
  \<^verbatim>\<open>retryWithBackoff(fn, maxRetries, delayMs)\<close>: the loop
  \<^verbatim>\<open>for (let attempt = 1; attempt <= maxRetries; attempt++)\<close>. A successful \<^verbatim>\<open>fn()\<close>
  returns its value; a failure is rethrown at the last attempt or when it is not a network
  error; otherwise the loop sleeps \<^verbatim>\<open>delayMs * Math.pow(2, attempt - 1)\<close> and goes on.
  A loop that never runs returns \<^verbatim>\<open>undefined\<close> (\<open>Inr None\<close>). \<open>on_sleep\<close> records a sleep in
  the state.
\<close>

function retry_loop ::
  "('st \<Rightarrow> (js_error + 'a) \<times> 'st) \<Rightarrow> (int \<Rightarrow> 'st \<Rightarrow> 'st) \<Rightarrow> nat \<Rightarrow> int \<Rightarrow> nat \<Rightarrow> 'st
     \<Rightarrow> (js_error + 'a option) \<times> 'st" where
  "retry_loop fn on_sleep maxRetries delayMs attempt st =
     (if attempt \<le> maxRetries
      then (case fn st of
              (Inr v, st') \<Rightarrow> (Inr (Some v), st')
            | (Inl error, st') \<Rightarrow>
                if attempt = maxRetries \<or> \<not> isNetworkError error
                then (Inl error, st')
                else retry_loop fn on_sleep maxRetries delayMs (attempt + 1)
                       (on_sleep (delayMs * 2 ^ (attempt - 1)) st'))
      else (Inr None, st))"
  by pat_completeness auto
termination
  by (relation "measure (\<lambda>(fn, on_sleep, maxRetries, delayMs, attempt, st). Suc maxRetries - attempt)")
     auto

declare retry_loop.simps [simp del]

definition retryWithBackoff ::
  "('st \<Rightarrow> (js_error + 'a) \<times> 'st) \<Rightarrow> (int \<Rightarrow> 'st \<Rightarrow> 'st) \<Rightarrow> nat \<Rightarrow> int \<Rightarrow> 'st
     \<Rightarrow> (js_error + 'a option) \<times> 'st" where
  "retryWithBackoff fn on_sleep maxRetries delayMs st = retry_loop fn on_sleep maxRetries delayMs 1 st"

text \<open>One call of \<^verbatim>\<open>gmailClient.users.messages.send\<close>.\<close>

definition messages_send :: "mail_env \<Rightarrow> mail \<Rightarrow> mailer \<Rightarrow> (js_error + unit) \<times> mailer" where
  "messages_send env m st =
     (case provider env (calls st) of
        Delivered \<Rightarrow> (Inr (), st\<lparr>calls := calls st + 1, sent := sent st @ [m]\<rparr>)
      | Fails e \<Rightarrow> (Inl e, st\<lparr>calls := calls st + 1\<rparr>))"

definition note_sleep :: "int \<Rightarrow> mailer \<Rightarrow> mailer" where
  "note_sleep d st = st\<lparr>slept := slept st @ [d]\<rparr>"

text \<open>
  The function \<^verbatim>\<open>sendEmailViaGmailAPI\<close> hands to the retry helper: it looks the client up
  and sends the message \<open>m\<close> once.
\<close>

definition send_attempt :: "mail_env \<Rightarrow> mail \<Rightarrow> mailer \<Rightarrow> (js_error + unit) \<times> mailer" where
  "send_attempt env m st1 =
     (case getGmailClient env st1 of
        Inl e \<Rightarrow> (Inl e, st1)
      | Inr st2 \<Rightarrow> messages_send env m st2)"

text \<open>
  \<^verbatim>\<open>sendEmailViaGmailAPI\<close>: the sender address is checked first, outside the retry; the
  client lookup and the send are the retried function, with 3 attempts and a base delay of
  2000 ms. The \<^verbatim>\<open>catch\<close> logs and rethrows.
\<close>

definition sendEmailViaGmailAPI ::
  "mail_env \<Rightarrow> string \<Rightarrow> string \<Rightarrow> html \<Rightarrow> mailer \<Rightarrow> (js_error + unit option) \<times> mailer" where
  "sendEmailViaGmailAPI env to subject htmlContent st =
     (if falsy (ADMIN_EMAIL env)
      then (Inl (new_Error ''Missing ADMIN_EMAIL environment variable''), st)
      else retryWithBackoff
             (send_attempt env
                \<lparr>m_from = str (ADMIN_EMAIL env), m_to = to, m_subject = subject,
                 m_html = htmlContent\<rparr>)
             note_sleep 3 2000 st)"

definition sendApprovalEmail ::
  "mail_env \<Rightarrow> string \<Rightarrow> string \<Rightarrow> mailer \<Rightarrow> (js_error + unit option) \<times> mailer" where
  "sendApprovalEmail env sellerEmail sellerName st =
     sendEmailViaGmailAPI env sellerEmail ''Your Seller Account Has Been Approved!''
       (ApprovalHtml sellerName) st"

definition sendRejectionEmail ::
  "mail_env \<Rightarrow> string \<Rightarrow> string \<Rightarrow> string \<Rightarrow> mailer \<Rightarrow> (js_error + unit option) \<times> mailer" where
  "sendRejectionEmail env sellerEmail sellerName reason st =
     sendEmailViaGmailAPI env sellerEmail ''Update on Your Seller Account Application''
       (RejectionHtml sellerName reason) st"

text \<open>
  \<^verbatim>\<open>sendOTPEmail\<close>: the same checks and the same message, and one direct call of the
  provider; \<^verbatim>\<open>retryWithBackoff\<close> is not used on this path.
\<close>

definition sendOTPEmail ::
  "mail_env \<Rightarrow> string \<Rightarrow> string \<Rightarrow> html \<Rightarrow> mailer \<Rightarrow> (js_error + unit) \<times> mailer" where
  "sendOTPEmail env to subject htmlContent st =
     (if falsy (ADMIN_EMAIL env)
      then (Inl (new_Error ''Missing ADMIN_EMAIL environment variable''), st)
      else (case getGmailClient env st of
              Inl e \<Rightarrow> (Inl e, st)
            | Inr st2 \<Rightarrow>
                messages_send env
                  \<lparr>m_from = str (ADMIN_EMAIL env), m_to = to, m_subject = subject,
                   m_html = htmlContent\<rparr> st2))"

text \<open>\<^verbatim>\<open>sendOTPToEmail\<close> (utils/otpService.js) builds the OTP mail and rethrows a failure.\<close>

definition sendOTPToEmail ::
  "mail_env \<Rightarrow> string \<Rightarrow> string \<Rightarrow> string \<Rightarrow> mailer \<Rightarrow> (js_error + bool) \<times> mailer" where
  "sendOTPToEmail env email_to otp userName st =
     (case sendOTPEmail env email_to ''Email Verification - OTP for Seller Registration''
             (OtpHtml userName otp) st of
        (Inl e, st') \<Rightarrow> (Inl e, st')
      | (Inr _, st') \<Rightarrow> (Inr True, st'))"

section \<open>Signup and OTP resend (src/routes/seller.js)\<close>

record signup_body =
  b_name :: "string option"
  b_email :: "string option"
  b_phone :: "string option"
  b_password :: "string option"
  b_aadhaarNumber :: "string option"
  b_aadhaarDocument :: "string option"
  b_bankName :: "string option"
  b_accountHolder :: "string option"
  b_accountNumber :: "string option"
  b_ifscCode :: "string option"

text \<open>
  What the handler takes from outside: \<^verbatim>\<open>String.prototype.toLowerCase\<close>, the identifier
  the mapper gives the new document, the password hash of the first pre-save hook,
  \<^verbatim>\<open>jwt.sign\<close>, the draw of \<^verbatim>\<open>Math.random()\<close>, and the clock at the four places it is read
  (document defaults, first save, OTP generation, second save).
\<close>

record signup_ctx =
  lower :: "string \<Rightarrow> string"
  new_id :: nat
  hash :: "string \<Rightarrow> string"
  jwt_sign :: "nat \<Rightarrow> string"
  random :: rat
  t_create :: int
  t_save1 :: int
  t_otp :: int
  t_save2 :: int

text \<open>
  \<^verbatim>\<open>new Seller({...})\<close> with the defaults of the schema. The key \<^verbatim>\<open>isEmailVerified\<close> of
  the object given to the constructor is not a path of the schema and is dropped.
\<close>

definition new_Seller :: "signup_ctx \<Rightarrow> signup_body \<Rightarrow> seller" where
  "new_Seller ctx b =
     \<lparr>sid = new_id ctx, name = str (b_name b), email = lower ctx (str (b_email b)),
      phone = str (b_phone b), password = str (b_password b),
      aadhaarNumber = str (b_aadhaarNumber b), aadhaarDocument = str (b_aadhaarDocument b),
      bankDetails =
        \<lparr>bankName = str (b_bankName b), accountHolder = str (b_accountHolder b),
         accountNumber = str (b_accountNumber b), ifscCode = str (b_ifscCode b)\<rparr>,
      status = Pending, isApproved = False, rejectionReason = None, approvedAt = None,
      totalEarnings = Fin 0, totalOrders = 0, totalProducts = 0, rating = 0, reviewCount = 0,
      withdrawals = [], createdAt = t_create ctx, updatedAt = t_create ctx\<rparr>"

text \<open>
  The handler. The OTP block is inside its own \<^verbatim>\<open>try\<close>: the OTP is generated, assigned to
  the property \<^verbatim>\<open>emailVerificationOTP\<close> of the document, the document is saved, and the
  code is mailed; a failure of the mail is logged and the handler goes on to sign the token
  and answer 201. The answer reads \<^verbatim>\<open>seller.isEmailVerified\<close>, which nothing has assigned.
\<close>

definition signup ::
  "signup_ctx \<Rightarrow> mail_env \<Rightarrow> signup_body \<Rightarrow> seller list \<Rightarrow> mailer
     \<Rightarrow> response \<times> seller list \<times> mailer" where
  "signup ctx env b sellers ms =
     (if falsy (b_name b) \<or> falsy (b_email b) \<or> falsy (b_phone b) \<or> falsy (b_password b) \<or>
         falsy (b_aadhaarNumber b) \<or> falsy (b_aadhaarDocument b) \<or> falsy (b_bankName b) \<or>
         falsy (b_accountHolder b) \<or> falsy (b_accountNumber b) \<or> falsy (b_ifscCode b)
      then (respond 400 ''All fields are required'' NoDetail, sellers, ms)
      else if findOne_email (lower ctx) (str (b_email b)) sellers \<noteq> None
      then (respond 400 ''Email already registered'' NoDetail, sellers, ms)
      else if findOne_aadhaar (str (b_aadhaarNumber b)) sellers \<noteq> None
      then (respond 400 ''Aadhaar number already registered'' NoDetail, sellers, ms)
      else
        let seller0 = hydrate (new_Seller ctx b);
            (seller1, sellers1) =
              save_document (t_save1 ctx)
                (seller0\<lparr>doc := (doc seller0)\<lparr>password := hash ctx (password (doc seller0))\<rparr>\<rparr>)
                sellers;
            otpData = generateOTPWithExpiry (random ctx) (t_otp ctx) 10;
            (seller2, sellers2) =
              save_document (t_save2 ctx) (seller1\<lparr>emailVerificationOTP := Some otpData\<rparr>)
                sellers1;
            (mailed, ms') =
              sendOTPToEmail env (email (doc seller2)) (str (code otpData)) (name (doc seller2))
                ms;
            token = jwt_sign ctx (sid (doc seller2))
        in (respond 201
              ''Seller registered successfully. Please verify your email with the OTP sent to your email address.''
              (SignupView (sid (doc seller2)) (name (doc seller2)) (email (doc seller2))
                 (status (doc seller2)) (isEmailVerified seller2) token),
            sellers2, ms'))"

text \<open>
  \<^verbatim>\<open>POST /send-otp\<close>: the handler refuses when \<^verbatim>\<open>seller.isEmailVerified\<close> is truthy;
  otherwise a fresh OTP is assigned to the property, the document is saved and the code is
  mailed; here a failure of the mail reaches the outer \<^verbatim>\<open>catch\<close> and the answer is 500.
\<close>

definition send_otp ::
  "(string \<Rightarrow> string) \<Rightarrow> rat \<Rightarrow> int \<Rightarrow> int \<Rightarrow> mail_env \<Rightarrow> string option \<Rightarrow> seller list \<Rightarrow> mailer
     \<Rightarrow> response \<times> seller list \<times> mailer" where
  "send_otp toLowerCase r t_gen t_save env email_in sellers ms =
     (if falsy email_in
      then (respond 400 ''Email is required'' NoDetail, sellers, ms)
      else
        case findOne_email toLowerCase (str email_in) sellers of
          None \<Rightarrow> (respond 404 ''Seller not found'' NoDetail, sellers, ms)
        | Some s \<Rightarrow>
            let seller = hydrate s
            in if holds (isEmailVerified seller)
               then (respond 400 ''Email is already verified'' NoDetail, sellers, ms)
               else
                 let otpData = generateOTPWithExpiry r t_gen 10;
                     (seller1, sellers1) =
                       save_document t_save (seller\<lparr>emailVerificationOTP := Some otpData\<rparr>)
                         sellers
                 in (case sendOTPToEmail env (email (doc seller1)) (str (code otpData))
                            (name (doc seller1)) ms of
                       (Inl e, ms') \<Rightarrow>
                         (respond 500 ''Error sending OTP'' (ErrorText (str (e_message e))),
                          sellers1, ms')
                     | (Inr _, ms') \<Rightarrow>
                         (respond 200 ''OTP sent successfully to your email'' NoDetail,
                          sellers1, ms')))"

section \<open>Admin review surface (src/routes/adminSeller.js)\<close>

text \<open>
  The three handlers, run once \<^verbatim>\<open>requireAdminAuth\<close> has passed. \<open>t_now\<close> is the time read
  by \<^verbatim>\<open>new Date()\<close>, \<open>t_save\<close> the time of the save. The mail goes out after the save,
  inside a \<^verbatim>\<open>try\<close> whose \<^verbatim>\<open>catch\<close> only logs.
\<close>

definition admin_approve ::
  "int \<Rightarrow> int \<Rightarrow> mail_env \<Rightarrow> nat \<Rightarrow> seller list \<Rightarrow> mailer \<Rightarrow> response \<times> seller list \<times> mailer" where
  "admin_approve t_now t_save env i sellers ms =
     (case findById i sellers of
        None \<Rightarrow> (respond 404 ''Seller not found'' NoDetail, sellers, ms)
      | Some seller \<Rightarrow>
          let (seller1, sellers1) =
                save t_save
                  (seller\<lparr>status := Approved, isApproved := True, approvedAt := Some t_now,
                          rejectionReason := None\<rparr>) sellers;
              (mailed, ms') = sendApprovalEmail env (email seller1) (name seller1) ms
          in (respond 200 ''Seller approved successfully''
                (ApproveView (sid seller1) (name seller1) (email seller1) (status seller1)
                   (isApproved seller1)),
              sellers1, ms'))"

definition admin_reject ::
  "int \<Rightarrow> mail_env \<Rightarrow> nat \<Rightarrow> string option \<Rightarrow> seller list \<Rightarrow> mailer
     \<Rightarrow> response \<times> seller list \<times> mailer" where
  "admin_reject t_save env i reason sellers ms =
     (if falsy reason
      then (respond 400 ''Rejection reason required'' NoDetail, sellers, ms)
      else
        case findById i sellers of
          None \<Rightarrow> (respond 404 ''Seller not found'' NoDetail, sellers, ms)
        | Some seller \<Rightarrow>
            let (seller1, sellers1) =
                  save t_save
                    (seller\<lparr>status := Rejected, isApproved := False,
                            rejectionReason := Some (str reason)\<rparr>) sellers;
                (mailed, ms') =
                  sendRejectionEmail env (email seller1) (name seller1) (str reason) ms
            in (respond 200 ''Seller rejected''
                  (RejectView (sid seller1) (name seller1) (email seller1) (status seller1)
                     (rejectionReason seller1)),
                sellers1, ms'))"

text \<open>
  \<^verbatim>\<open>statusMap = {active: "approved", inactive: "inactive", suspended: "suspended"}\<close>;
  \<open>None\<close> for a key the map does not have. The handler looks the map up only after
  \<^verbatim>\<open>["active", "inactive", "suspended"].includes(newStatus)\<close>, so its \<open>None\<close> branch
  below is never taken.
\<close>

definition statusMap :: "string \<Rightarrow> seller_status option" where
  "statusMap k =
     (if k = ''active'' then Some Approved
      else if k = ''inactive'' then Some Inactive
      else if k = ''suspended'' then Some Suspended
      else None)"

definition admin_status ::
  "int \<Rightarrow> nat \<Rightarrow> string option \<Rightarrow> seller list \<Rightarrow> response \<times> seller list" where
  "admin_status t_save i newStatus sellers =
     (if str newStatus \<notin> set [''active'', ''inactive'', ''suspended'']
      then (respond 400 ''Invalid status'' NoDetail, sellers)
      else
        case findById i sellers of
          None \<Rightarrow> (respond 404 ''Seller not found'' NoDetail, sellers)
        | Some seller \<Rightarrow>
            (case statusMap (str newStatus) of
               None \<Rightarrow> (respond 500 ''Error updating seller status'' NoDetail, sellers)
             | Some st \<Rightarrow>
                 let (seller1, sellers1) =
                       save t_save
                         (seller\<lparr>status := st, isApproved := (str newStatus = ''active'')\<rparr>)
                         sellers
                 in (respond 200 (''Seller '' @ str newStatus @ '' successfully'')
                       (StatusView (sid seller1) (name seller1) (status seller1)
                          (isApproved seller1)),
                     sellers1)))"

section \<open>Approval gate (src/middleware/sellerAuth.js)\<close>

text \<open>\<^verbatim>\<open>String.prototype.split\<close> on a one-character separator.\<close>

fun js_split :: "char \<Rightarrow> string \<Rightarrow> string list" where
  "js_split c [] = [[]]"
| "js_split c (x # xs) =
     (if x = c then [] # js_split c xs
      else (case js_split c xs of [] \<Rightarrow> [[x]] | w # ws \<Rightarrow> (x # w) # ws))"

text \<open>\<^verbatim>\<open>req.headers.authorization?.split(" ")[1]\<close>; \<open>None\<close> is \<^verbatim>\<open>undefined\<close>.\<close>

definition bearer_token :: "string option \<Rightarrow> string option" where
  "bearer_token authorization =
     (case authorization of
        None \<Rightarrow> None
      | Some h \<Rightarrow> (case js_split CHR '' '' h of a # t # rest \<Rightarrow> Some t | _ \<Rightarrow> None))"

text \<open>
  The payload of a verified token. \<^verbatim>\<open>jwt.verify\<close> is a parameter of the gate: it returns
  the payload or throws, \<open>Inl\<close> carrying the message of the error.
\<close>

record jwt_payload =
  sellerId :: "nat option"
  isAdmin :: bool

text \<open>
  \<^verbatim>\<open>requireApprovedSeller\<close>: \<open>Inl\<close> is the response sent without calling \<^verbatim>\<open>next()\<close>,
  \<open>Inr\<close> the seller put in \<^verbatim>\<open>req.seller\<close> before \<^verbatim>\<open>next()\<close>.
\<close>

definition requireApprovedSeller ::
  "(string \<Rightarrow> string + jwt_payload) \<Rightarrow> string option \<Rightarrow> seller list \<Rightarrow> response + seller" where
  "requireApprovedSeller jwt_verify authorization sellers =
     (if falsy (bearer_token authorization)
      then Inl (respond 401 ''No token provided'' NoDetail)
      else
        case jwt_verify (str (bearer_token authorization)) of
          Inl err \<Rightarrow> Inl (respond 401 ''Invalid token'' (ErrorText err))
        | Inr decoded \<Rightarrow>
            (case (case sellerId decoded of None \<Rightarrow> None | Some i \<Rightarrow> findById i sellers) of
               None \<Rightarrow> Inl (respond 404 ''Seller not found'' NoDetail)
             | Some seller \<Rightarrow>
                 if \<not> isApproved seller \<or> status seller \<noteq> Approved
                 then Inl (respond 403
                             ''Seller account not approved. Please wait for admin approval.''
                             (SellerStatus (status seller)))
                 else Inr seller))"

text \<open>
  The routes of src/routes/seller.js and the middleware each is registered with:
  \<open>gated r\<close> holds when \<^verbatim>\<open>requireApprovedSeller\<close> stands before the handler.
\<close>

datatype seller_route =
    PostSignup | PostSendOtp | PostVerifyEmail | PostLogin
  | GetProfile | PostChangePassword | PutProfile | GetStatus
  | GetProductsList | PostProducts | PutProduct | DeleteProduct
  | GetOrdersList | PutOrder | GetWithdrawalsHistory | PostWithdrawals

fun gated :: "seller_route \<Rightarrow> bool" where
  "gated PostSignup = False"
| "gated PostSendOtp = False"
| "gated PostVerifyEmail = False"
| "gated PostLogin = False"
| "gated GetProfile = True"
| "gated PostChangePassword = True"
| "gated PutProfile = True"
| "gated GetStatus = False"
| "gated GetProductsList = True"
| "gated PostProducts = True"
| "gated PutProduct = True"
| "gated DeleteProduct = True"
| "gated GetOrdersList = True"
| "gated PutOrder = True"
| "gated GetWithdrawalsHistory = True"
| "gated PostWithdrawals = True"

text \<open>
  The middleware chain of a route: on a gated route the handler runs only when the gate
  called \<^verbatim>\<open>next()\<close>, with \<^verbatim>\<open>req.seller\<close> set; otherwise the gate's response is the
  answer and the state \<open>w\<close> is untouched. An ungated route runs its handler directly.
\<close>

definition serve ::
  "seller_route \<Rightarrow> (response + seller) \<Rightarrow> (seller option \<Rightarrow> 'w \<Rightarrow> response \<times> 'w) \<Rightarrow> 'w
     \<Rightarrow> response \<times> 'w" where
  "serve r gate handler w =
     (if gated r
      then (case gate of Inl resp \<Rightarrow> (resp, w) | Inr seller \<Rightarrow> handler (Some seller) w)
      else handler None w)"

text \<open>\<^verbatim>\<open>router.post("/withdrawals", requireApprovedSeller, ...)\<close> as a whole.\<close>

definition route_post_withdrawals ::
  "(string \<Rightarrow> string + jwt_payload) \<Rightarrow> string option \<Rightarrow> int \<Rightarrow> int \<Rightarrow> number option
     \<Rightarrow> seller list \<Rightarrow> response \<times> seller list" where
  "route_post_withdrawals jwt_verify authorization t_req t_save amount_in sellers =
     serve PostWithdrawals (requireApprovedSeller jwt_verify authorization sellers)
       (\<lambda>req_seller w. case req_seller of
                          Some s \<Rightarrow> post_withdrawals t_req t_save amount_in s w
                        | None \<Rightarrow> (respond 500 ''Error creating withdrawal request'' NoDetail, w))
       sellers"

section \<open>Sample documents and environments\<close>

text \<open>\<^verbatim>\<open>String.prototype.toLowerCase\<close> as it acts on strings of ASCII characters.\<close>

definition sample_lower_char :: "char \<Rightarrow> char" where
  "sample_lower_char c =
     (case map_of (zip ''ABCDEFGHIJKLMNOPQRSTUVWXYZ'' ''abcdefghijklmnopqrstuvwxyz'') c of
        None \<Rightarrow> c
      | Some d \<Rightarrow> d)"

definition sample_lower :: "string \<Rightarrow> string" where
  "sample_lower s = map sample_lower_char s"

definition sample_bank :: bank_details where
  "sample_bank = \<lparr>bankName = ''SBI'', accountHolder = ''Asha'', accountNumber = ''0012'',
                   ifscCode = ''SBIN0001''\<rparr>"

definition sample_seller :: seller where
  "sample_seller =
     \<lparr>sid = 1, name = ''Asha'', email = ''asha@example.com'', phone = ''900'',
      password = ''h'', aadhaarNumber = ''1234'', aadhaarDocument = ''doc'',
      bankDetails = sample_bank, status = Approved, isApproved = True,
      rejectionReason = None, approvedAt = Some 50, totalEarnings = Fin 100, totalOrders = 0,
      totalProducts = 0, rating = 0, reviewCount = 0, withdrawals = [],
      createdAt = 10, updatedAt = 50\<rparr>"

definition sample_withdrawal :: "number \<Rightarrow> withdrawal" where
  "sample_withdrawal a =
     \<lparr>amount = a, requestDate = 60, w_status = WPending, w_bankDetails = sample_bank,
      completedDate = None, w_notes = None\<rparr>"

text \<open>A seller whose recorded withdrawals exceed the earnings: the balance is \<open>-10\<close>.\<close>

definition overdrawn_seller :: seller where
  "overdrawn_seller =
     sample_seller\<lparr>totalEarnings := Fin 0, withdrawals := [sample_withdrawal (Fin 10)]\<rparr>"

text \<open>An approved seller who has earned nothing yet: the balance is \<open>0\<close>.\<close>

definition fresh_seller :: seller where
  "fresh_seller = sample_seller\<lparr>totalEarnings := Fin 0\<rparr>"

text \<open>
  A seller with earnings of 9007199254740994 and withdrawals of 9007199254740992 and \<open>1\<close>: the exact
  difference is 1, the sum of the withdrawals rounds to 9007199254740992 and the balance the handler
  computes is 2.
\<close>

definition large_seller :: seller where
  "large_seller =
     sample_seller\<lparr>totalEarnings := Fin 9007199254740994,
                    withdrawals := [sample_withdrawal (Fin 9007199254740992),
                                    sample_withdrawal (Fin 1)]\<rparr>"

text \<open>A seller whose earnings are recorded as \<^verbatim>\<open>Infinity\<close>.\<close>

definition unbounded_seller :: seller where
  "unbounded_seller = sample_seller\<lparr>totalEarnings := PosInf\<rparr>"

text \<open>A seller who has signed up and waits for approval.\<close>

definition pending_seller :: seller where
  "pending_seller = sample_seller\<lparr>status := Pending, isApproved := False, approvedAt := None\<rparr>"

definition timeout_error :: js_error where
  "timeout_error = \<lparr>e_message = Some ''connect ETIMEDOUT 142.250.0.1:443'', e_code = Some ''ETIMEDOUT''\<rparr>"

definition auth_error :: js_error where
  "auth_error = \<lparr>e_message = Some ''invalid_grant'', e_code = Some ''401''\<rparr>"

text \<open>A provider that times out on its first two calls and delivers from the third on.\<close>

definition flaky_env :: mail_env where
  "flaky_env =
     \<lparr>ADMIN_EMAIL = Some ''admin@example.com'', oauth_vars = True,
      provider = (\<lambda>k. if k < 2 then Fails timeout_error else Delivered)\<rparr>"

text \<open>A provider that never delivers, and one that refuses the credentials.\<close>

definition dead_env :: mail_env where
  "dead_env =
     \<lparr>ADMIN_EMAIL = Some ''admin@example.com'', oauth_vars = True,
      provider = (\<lambda>k. Fails timeout_error)\<rparr>"

definition denied_env :: mail_env where
  "denied_env =
     \<lparr>ADMIN_EMAIL = Some ''admin@example.com'', oauth_vars = True,
      provider = (\<lambda>k. Fails auth_error)\<rparr>"

definition new_mailer :: mailer where
  "new_mailer = \<lparr>oauth2ClientInstance = False, gmailInstance = False, calls = 0, sent = [],
                  slept = []\<rparr>"

definition sample_body :: signup_body where
  "sample_body =
     \<lparr>b_name = Some ''Ravi'', b_email = Some ''ravi@example.com'', b_phone = Some ''901'',
      b_password = Some ''secret'', b_aadhaarNumber = Some ''5678'',
      b_aadhaarDocument = Some ''doc2'', b_bankName = Some ''HDFC'',
      b_accountHolder = Some ''Ravi'', b_accountNumber = Some ''0034'',
      b_ifscCode = Some ''HDFC0001''\<rparr>"

text \<open>A provider that delivers every mail.\<close>

definition good_env :: mail_env where
  "good_env =
     \<lparr>ADMIN_EMAIL = Some ''admin@example.com'', oauth_vars = True,
      provider = (\<lambda>k. Delivered)\<rparr>"

text \<open>
  The pending seller asks for an OTP at time 900 and the mail is delivered; then \<open>n\<close>
  verification requests in a row are made with the wrong code \<^verbatim>\<open>000000\<close>, at time 1000.
\<close>

definition otp_issued :: "response \<times> seller list \<times> mailer" where
  "otp_issued =
     send_otp sample_lower (1 / 2) 900 901 good_env (Some ''asha@example.com'') [pending_seller]
       new_mailer"

fun wrong_attempts :: "nat \<Rightarrow> seller list \<Rightarrow> seller list" where
  "wrong_attempts 0 sellers = sellers"
| "wrong_attempts (Suc n) sellers =
     wrong_attempts n
       (snd (verify_email sample_lower 1000 1000 (Some ''asha@example.com'') (Some ''000000'')
               sellers))"

definition sample_ctx :: signup_ctx where
  "sample_ctx =
     \<lparr>lower = sample_lower, new_id = 2, hash = (\<lambda>p. ''#'' @ p), jwt_sign = (\<lambda>i. ''token''),
      random = 1 / 2, t_create = 100, t_save1 = 101, t_otp = 102, t_save2 = 103\<rparr>"

text \<open>A verifier that accepts the one token \<^verbatim>\<open>good\<close>, issued to seller 1.\<close>

definition sample_verify :: "string \<Rightarrow> string + jwt_payload" where
  "sample_verify tok =
     (if tok = ''good'' then Inr \<lparr>sellerId = Some 1, isAdmin = False\<rparr> else Inl ''jwt malformed'')"

section \<open>Properties of the collection\<close>

lemma findById_sid: "findById i sellers = Some s \<Longrightarrow> sid s = i"
  by (auto simp: findById_def find_Some_iff)

lemma find_replace_other:
  "sid s' = i \<Longrightarrow> j \<noteq> i \<Longrightarrow>
   find (\<lambda>x. sid x = j) (map (\<lambda>x. if sid x = i then s' else x) xs) = find (\<lambda>x. sid x = j) xs"
  by (induction xs) auto

lemma find_replace_same:
  "sid s' = i \<Longrightarrow> \<exists>x \<in> set xs. sid x = i \<Longrightarrow>
   find (\<lambda>x. sid x = i) (map (\<lambda>x. if sid x = i then s' else x) xs) = Some s'"
  by (induction xs) auto

lemma find_append_fresh:
  "sid s' = i \<Longrightarrow> \<forall>x \<in> set xs. sid x \<noteq> i \<Longrightarrow>
   find (\<lambda>x. sid x = j) (xs @ [s']) =
     (if j = i then Some s' else find (\<lambda>x. sid x = j) xs)"
  by (induction xs) auto

text \<open>After a save the collection holds the saved document under its identifier, and every
  other document as before.\<close>

lemma findById_save:
  "findById j (snd (save t s1 sellers)) =
     (if j = sid s1 then Some (s1\<lparr>updatedAt := t\<rparr>) else findById j sellers)"
proof (cases "\<exists>x \<in> set sellers. sid x = sid s1")
  case True
  then show ?thesis
    using find_replace_other [of "s1\<lparr>updatedAt := t\<rparr>" "sid s1" j sellers]
      find_replace_same [of "s1\<lparr>updatedAt := t\<rparr>" "sid s1" sellers]
    by (simp add: save_def findById_def Let_def)
next
  case False
  then show ?thesis
    using find_append_fresh [of "s1\<lparr>updatedAt := t\<rparr>" "sid s1" sellers j]
    by (simp add: save_def findById_def Let_def)
qed

lemma fst_save: "fst (save t s1 sellers) = s1\<lparr>updatedAt := t\<rparr>"
  by (simp add: save_def Let_def)

lemma save_document_simps:
  "fst (save_document t d sellers) = d\<lparr>doc := (doc d)\<lparr>updatedAt := t\<rparr>\<rparr>"
  "snd (save_document t d sellers) = snd (save t (doc d) sellers)"
  by (simp_all add: save_document_def fst_save)

section \<open>Properties of numbers\<close>

lemma num_sub_self: "num_sub (Fin b) (Fin b) = Fin 0"
  by (simp add: num_sub_def to_double_def)

lemma num_greater_zero:
  "num_greater a (Fin 0) \<Longrightarrow> \<not> num_falsy a \<and> \<not> num_le a (Fin 0)"
  by (cases a) (auto simp: num_greater_def num_falsy_def num_le_def)

lemma num_le_zero_not_greater: "num_le a (Fin 0) \<Longrightarrow> \<not> num_greater a (Fin 0)"
  by (cases a) (auto simp: num_greater_def num_le_def)

lemma num_falsy_not_greater: "num_falsy a \<Longrightarrow> \<not> num_greater a (Fin 0)"
  by (auto simp: num_greater_def num_falsy_def)

lemma round_half_even_of_int: "round_half_even (of_int m) = m"
  by (simp add: round_half_even_def)

lemma ilog2_of_int:
  assumes "0 < n"
  shows "ilog2 (of_int n) = bitlen n - 1"
proof -
  have b: "1 \<le> bitlen n"
    using assms bitlen_bounds [of n] bitlen_nonneg [of n]
    by (smt (verit) bitlen_eq_zero_iff)
  have "(2::int) ^ nat (bitlen n - 1) \<le> n"
    using bitlen_bounds [OF assms] by simp
  then have "(of_int ((2::int) ^ nat (bitlen n - 1)) :: rat) \<le> of_int n"
    by (simp only: of_int_le_iff)
  then have "pow2 (bitlen n - 1) \<le> of_int n"
    using b by (simp add: pow2_def)
  moreover have "bitlen 1 = 1"
    by (simp add: bitlen_alt_def)
  ultimately show ?thesis
    by (simp add: ilog2_def Let_def)
qed


text \<open>An integer of magnitude at most \<open>2^53\<close> is its own rounding.\<close>

lemma to_double_of_int:
  assumes "\<bar>n\<bar> \<le> 2 ^ 53"
  shows "to_double (of_int n) = Fin (of_int n)"
proof (cases "n = 0")
  case True
  then show ?thesis
    by (simp add: to_double_def)
next
  case False
  define a where "a = \<bar>n\<bar>"
  define k where "k = bitlen a - 1"
  have a: "0 < a" "a \<le> 2 ^ 53"
    using False assms by (simp_all add: a_def)
  have abs: "\<bar>of_int n :: rat\<bar> = of_int a"
    by (simp add: a_def)
  have bounds: "2 ^ nat k \<le> a" "a < 2 ^ nat (k + 1)"
    using bitlen_bounds [OF a(1)] by (simp_all add: k_def)
  have k0: "0 \<le> k"
    using a(1) bitlen_bounds [of a] bitlen_eq_zero_iff [of a] bitlen_nonneg [of a]
    by (simp add: k_def)
  have p53: "(2::int) ^ nat k \<le> 2 ^ 53"
    using bounds(1) a(2) by linarith
  have "nat k \<le> 53"
    by (rule power_le_imp_le_exp [where a = "2::int"], simp, fact p53)
  then have k53: "k \<le> 53"
    by linarith
  have il: "ilog2 (of_int a) = k"
    by (simp add: ilog2_of_int [OF a(1)] k_def)
  have e: "max (k - 52) (- 1074) = k - 52"
    using k0 by simp
  have v: "of_int (round_half_even (of_int a / pow2 (k - 52))) * pow2 (k - 52) = (of_int a :: rat)"
  proof (cases "k \<le> 52")
    case True
    define j where "j = nat (52 - k)"
    have p: "pow2 (k - 52) = 1 / 2 ^ j"
      using True by (cases "k = 52") (simp_all add: pow2_def j_def)
    have q: "(of_int a :: rat) / pow2 (k - 52) = of_int (a * 2 ^ j)"
      by (simp add: p)
    have "(of_int (a * 2 ^ j) :: rat) * pow2 (k - 52) = of_int a"
      by (simp add: p)
    then show ?thesis
      unfolding q round_half_even_of_int .
  next
    case False
    then have k: "k = 53"
      using k53 by simp
    have "a = 2 ^ 53"
      using bounds(1) a(2) k by simp
    then have q: "(of_int a :: rat) / pow2 (k - 52) = of_int (2 ^ 52)"
      by (simp add: k pow2_def)
    show ?thesis
      unfolding q round_half_even_of_int
      using \<open>a = 2 ^ 53\<close> by (simp add: k pow2_def)
  qed
  have "(of_int a :: rat) \<le> of_int (2 ^ 53)"
    using a(2) by (simp only: of_int_le_iff)
  also have "\<dots> < pow2 1024"
    by (simp add: pow2_def)
  finally have o: "\<not> pow2 1024 \<le> (of_int a :: rat)"
    by simp
  have "to_double (of_int n) = Fin (if n < 0 then - of_int a else of_int a)"
    using False o by (simp add: to_double_def abs il e v Let_def)
  also have "(if n < 0 then - of_int a else of_int a) = (of_int n :: rat)"
    by (simp add: a_def)
  finally show ?thesis .
qed

text \<open>
  On non-negative integers the arithmetic of the balance is exact as long as the earnings
  and the sum of the withdrawals stay within \<open>2^53\<close>.
\<close>

lemma num_add_ints:
  assumes "0 \<le> x" "0 \<le> y" "x + y \<le> 2 ^ 53"
  shows "num_add (Fin (of_int x)) (Fin (of_int y)) = Fin (of_int (x + y))"
  using assms to_double_of_int [of "x + y"] by simp

lemma foldl_num_add_ints:
  assumes "map amount ws = map (\<lambda>a. Fin (of_int a)) as" "\<forall>a \<in> set as. 0 \<le> a"
    and "0 \<le> acc" "acc + sum_list as \<le> 2 ^ 53"
  shows "foldl (\<lambda>sum w. num_add sum (amount w)) (Fin (of_int acc)) ws =
           Fin (of_int (acc + sum_list as))"
  using assms
proof (induction ws arbitrary: as acc)
  case Nil
  then show ?case by simp
next
  case (Cons w ws)
  then obtain a as' where as: "as = a # as'" "amount w = Fin (of_int a)"
      "map amount ws = map (\<lambda>a. Fin (of_int a)) as'"
    by (cases as) auto
  have nn: "0 \<le> a" "\<forall>a \<in> set as'. 0 \<le> a"
    using Cons.prems(2) as(1) by simp_all
  have "0 \<le> sum_list as'"
    using nn(2) by (simp add: sum_list_nonneg)
  then have le: "acc + a \<le> 2 ^ 53"
    using Cons.prems(4) as(1) by simp
  have step: "num_add (Fin (of_int acc)) (amount w) = Fin (of_int (acc + a))"
    using num_add_ints [OF Cons.prems(3) nn(1) le] as(2) by simp
  have "foldl (\<lambda>sum w. num_add sum (amount w)) (Fin (of_int (acc + a))) ws =
          Fin (of_int (acc + a + sum_list as'))"
    using Cons.prems(3,4) nn as(1)
    by (intro Cons.IH [OF as(3)]) simp_all
  then show ?case
    by (simp add: step as(1) add.assoc)
qed

lemma availableBalance_exact:
  assumes "totalEarnings s = Fin (of_int E)" "0 \<le> E" "E \<le> 2 ^ 53"
    and "map amount (withdrawals s) = map (\<lambda>a. Fin (of_int a)) as" "\<forall>a \<in> set as. 0 \<le> a"
    and "sum_list as \<le> 2 ^ 53"
  shows "availableBalance s = Fin (of_int (E - sum_list as))"
proof -
  have "foldl (\<lambda>sum w. num_add sum (amount w)) (Fin (of_int 0)) (withdrawals s) =
          Fin (of_int (0 + sum_list as))"
    using assms(4,5,6) by (intro foldl_num_add_ints) simp_all
  then have w: "totalWithdrawn s = Fin (of_int (sum_list as))"
    by (simp add: totalWithdrawn_def)
  have "0 \<le> sum_list as"
    using assms(5) by (simp add: sum_list_nonneg)
  then have "\<bar>E - sum_list as\<bar> \<le> 2 ^ 53"
    using assms(2,3,6) by simp
  then show ?thesis
    using to_double_of_int [of "E - sum_list as"]
    by (simp add: availableBalance_def w assms(1) num_sub_def)
qed

section \<open>Properties of the withdrawal request\<close>

text \<open>The field-by-field copy of the bank details is the bank details.\<close>

lemma bank_details_copy:
  "\<lparr>bankName = bankName b, accountHolder = accountHolder b,
    accountNumber = accountNumber b, ifscCode = ifscCode b\<rparr> = (b :: bank_details)"
  by (cases b) simp

lemma availableBalance_overdrawn: "availableBalance overdrawn_seller = Fin (- 10)"
  by code_simp

lemma availableBalance_large: "availableBalance large_seller = Fin 2"
  by code_simp

lemma availableBalance_fresh: "availableBalance fresh_seller = Fin 0"
  by code_simp

lemma availableBalance_sample: "availableBalance sample_seller = Fin 100"
  by code_simp

lemma availableBalance_unbounded: "availableBalance unbounded_seller = PosInf"
  by code_simp

text \<open>
  C4, as stated, fails twice. (1) The claim quantifies over every amount above the balance:
  for the seller whose balance is \<open>-10\<close>, a request for \<open>-5\<close> is above the balance, and the
  handler answers with the validation message, because the guard on the amount runs before
  the balance is computed. (2) The balance of the handler is not the exact difference: for
  the seller with earnings 9007199254740994 and withdrawals 9007199254740992 and 1 the
  exact difference is 1 and the handler computes 2, so a request for 2, above the exact
  difference, is granted.
\<close>

theorem withdrawal_above_balance_counterexample:
  "availableBalance overdrawn_seller = Fin (- 10) \<and>
   num_greater (Fin (- 5)) (availableBalance overdrawn_seller) \<and>
   post_withdrawals 70 71 (Some (Fin (- 5))) overdrawn_seller [overdrawn_seller] =
     (respond 400 ''Valid amount is required'' NoDetail, [overdrawn_seller]) \<and>
   totalEarnings large_seller = Fin 9007199254740994 \<and>
   map amount (withdrawals large_seller) = [Fin 9007199254740992, Fin 1] \<and>
   (9007199254740994 - (9007199254740992 + 1) :: rat) = 1 \<and>
   availableBalance large_seller = Fin 2 \<and>
   status_code (fst (post_withdrawals 70 71 (Some (Fin 2)) large_seller [large_seller])) = 201"
proof (intro conjI)
  show "availableBalance overdrawn_seller = Fin (- 10)"
    by (rule availableBalance_overdrawn)
  show "num_greater (Fin (- 5)) (availableBalance overdrawn_seller)"
    by (simp add: availableBalance_overdrawn num_greater_def)
  show "post_withdrawals 70 71 (Some (Fin (- 5))) overdrawn_seller [overdrawn_seller] =
     (respond 400 ''Valid amount is required'' NoDetail, [overdrawn_seller])"
    by (simp add: post_withdrawals_def num_le_def)
  show "totalEarnings large_seller = Fin 9007199254740994"
    by (simp add: large_seller_def)
  show "map amount (withdrawals large_seller) = [Fin 9007199254740992, Fin 1]"
    by (simp add: large_seller_def sample_withdrawal_def)
  show "(9007199254740994 - (9007199254740992 + 1) :: rat) = 1"
    by simp
  show "availableBalance large_seller = Fin 2"
    by (rule availableBalance_large)
  show "status_code (fst (post_withdrawals 70 71 (Some (Fin 2)) large_seller [large_seller])) = 201"
    by (simp add: post_withdrawals_def availableBalance_large num_falsy_def num_le_def
        num_greater_def Let_def respond_def)
qed

text \<open>
  C4, amended: for every seller state the available balance is the total earnings minus
  the sum of the amounts of all withdrawals, both taken in the handler's arithmetic of
  numbers (the sum from left to right, each step rounded), and every request for a positive
  amount strictly greater than that balance is answered 400 "Insufficient balance" with the
  balance, the collection (hence the withdrawals and every other field of every seller)
  being left as it was.
\<close>

theorem withdrawal_above_balance_rejected:
  "num_greater a (Fin 0) \<Longrightarrow> num_greater a (availableBalance s) \<Longrightarrow>
   availableBalance s =
     num_sub (totalEarnings s)
       (foldl (\<lambda>sum w. num_add sum (amount w)) (Fin 0) (withdrawals s)) \<and>
   post_withdrawals t_req t_save (Some a) s sellers =
     (respond 400 ''Insufficient balance'' (AvailableBalance (availableBalance s)), sellers)"
  using num_greater_zero [of a]
  by (simp add: post_withdrawals_def) (simp add: availableBalance_def totalWithdrawn_def)

theorem withdrawal_above_balance_rejected_witness:
  "num_greater (Fin 101) (Fin 0) \<and> num_greater (Fin 101) (availableBalance sample_seller) \<and>
   post_withdrawals 70 71 (Some (Fin 101)) sample_seller [sample_seller] =
     (respond 400 ''Insufficient balance'' (AvailableBalance (Fin 100)), [sample_seller])"
proof -
  have h: "num_greater (Fin 101) (Fin 0)" "num_greater (Fin 101) (availableBalance sample_seller)"
    by (simp_all add: availableBalance_sample num_greater_def)
  show ?thesis
    using h withdrawal_above_balance_rejected [OF h, of 70 71 "[sample_seller]"]
    by (simp add: availableBalance_sample)
qed

text \<open>
  C8, as stated, fails three times. (1) For the approved seller who has earned nothing the
  available balance is 0, and a request for exactly that amount is refused by the guard on
  the amount. (2) For the seller with earnings 9007199254740994 and withdrawals
  9007199254740992 and 1, a request for the exact difference 1 is granted with a reported
  remaining balance of 1, the handler's balance being 2. (3) For the seller whose earnings
  are infinite, a request for the infinite balance is granted with a remaining balance that
  is not a number.
\<close>

theorem withdrawal_of_whole_balance_counterexample:
  "availableBalance fresh_seller = Fin 0 \<and>
   post_withdrawals 70 71 (Some (availableBalance fresh_seller)) fresh_seller [fresh_seller] =
     (respond 400 ''Valid amount is required'' NoDetail, [fresh_seller]) \<and>
   totalEarnings large_seller = Fin 9007199254740994 \<and>
   map amount (withdrawals large_seller) = [Fin 9007199254740992, Fin 1] \<and>
   (9007199254740994 - (9007199254740992 + 1) :: rat) = 1 \<and>
   detail (fst (post_withdrawals 70 71 (Some (Fin 1)) large_seller [large_seller])) =
     WithdrawalCreated
       \<lparr>amount = Fin 1, requestDate = 70, w_status = WPending, w_bankDetails = sample_bank,
        completedDate = None, w_notes = None\<rparr> (Fin 1) \<and>
   availableBalance unbounded_seller = PosInf \<and>
   detail (fst (post_withdrawals 70 71 (Some PosInf) unbounded_seller [unbounded_seller])) =
     WithdrawalCreated
       \<lparr>amount = PosInf, requestDate = 70, w_status = WPending, w_bankDetails = sample_bank,
        completedDate = None, w_notes = None\<rparr> NaN"
proof (intro conjI)
  show "availableBalance fresh_seller = Fin 0"
    by (rule availableBalance_fresh)
  show "post_withdrawals 70 71 (Some (availableBalance fresh_seller)) fresh_seller
          [fresh_seller] = (respond 400 ''Valid amount is required'' NoDetail, [fresh_seller])"
    by (simp add: post_withdrawals_def availableBalance_fresh num_falsy_def)
  show "totalEarnings large_seller = Fin 9007199254740994"
    by (simp add: large_seller_def)
  show "map amount (withdrawals large_seller) = [Fin 9007199254740992, Fin 1]"
    by (simp add: large_seller_def sample_withdrawal_def)
  show "(9007199254740994 - (9007199254740992 + 1) :: rat) = 1"
    by simp
  have one: "num_sub (Fin 2) (Fin 1) = Fin 1"
    by code_simp
  have bank: "bankDetails large_seller = sample_bank"
    by (simp add: large_seller_def sample_seller_def)
  show "detail (fst (post_withdrawals 70 71 (Some (Fin 1)) large_seller [large_seller])) =
     WithdrawalCreated
       \<lparr>amount = Fin 1, requestDate = 70, w_status = WPending, w_bankDetails = sample_bank,
        completedDate = None, w_notes = None\<rparr> (Fin 1)"
    by (simp add: post_withdrawals_def availableBalance_large num_falsy_def num_le_def
        num_greater_def Let_def respond_def one bank_details_copy bank)
  show "availableBalance unbounded_seller = PosInf"
    by (rule availableBalance_unbounded)
  have bank': "bankDetails unbounded_seller = sample_bank"
    by (simp add: unbounded_seller_def sample_seller_def)
  show "detail (fst (post_withdrawals 70 71 (Some PosInf) unbounded_seller
          [unbounded_seller])) =
     WithdrawalCreated
       \<lparr>amount = PosInf, requestDate = 70, w_status = WPending, w_bankDetails = sample_bank,
        completedDate = None, w_notes = None\<rparr> NaN"
    by (simp add: post_withdrawals_def availableBalance_unbounded num_falsy_def num_le_def
        num_greater_def num_sub_def Let_def respond_def bank_details_copy bank')
qed

text \<open>
  C8, amended: for every seller whose available balance, as the handler computes it, is a
  positive finite number, a request for exactly that balance is answered 201; one
  withdrawal is appended, pending, for that amount, with a copy of the seller's current
  bank details; the reported remaining balance is 0; and the stored document is the seller
  with that withdrawal appended.
\<close>

theorem withdrawal_of_whole_balance:
  "availableBalance s = Fin b \<Longrightarrow> 0 < b \<Longrightarrow>
   w = \<lparr>amount = Fin b, requestDate = t_req, w_status = WPending,
        w_bankDetails = bankDetails s, completedDate = None, w_notes = None\<rparr> \<Longrightarrow>
   post_withdrawals t_req t_save (Some (availableBalance s)) s sellers =
     (respond 201 ''Withdrawal request created successfully'' (WithdrawalCreated w (Fin 0)),
      snd (save t_save (s\<lparr>withdrawals := withdrawals s @ [w]\<rparr>) sellers)) \<and>
   findById (sid s)
       (snd (post_withdrawals t_req t_save (Some (availableBalance s)) s sellers)) =
     Some (s\<lparr>withdrawals := withdrawals s @ [w], updatedAt := t_save\<rparr>)"
  by (simp add: post_withdrawals_def Let_def findById_save bank_details_copy num_falsy_def
      num_le_def num_greater_def num_sub_self)

theorem withdrawal_of_whole_balance_witness:
  "availableBalance sample_seller = Fin 100 \<and>
   post_withdrawals 70 71 (Some (availableBalance sample_seller)) sample_seller [sample_seller] =
     (respond 201 ''Withdrawal request created successfully''
        (WithdrawalCreated
           \<lparr>amount = Fin 100, requestDate = 70, w_status = WPending,
            w_bankDetails = bankDetails sample_seller, completedDate = None,
            w_notes = None\<rparr> (Fin 0)),
      snd (save 71
             (sample_seller
                \<lparr>withdrawals := withdrawals sample_seller @
                   [\<lparr>amount = Fin 100, requestDate = 70,
                     w_status = WPending, w_bankDetails = bankDetails sample_seller,
                     completedDate = None, w_notes = None\<rparr>]\<rparr>)
             [sample_seller]))"
proof -
  have h: "(0::rat) < 100"
    by simp
  show ?thesis
    using availableBalance_sample
      withdrawal_of_whole_balance [OF availableBalance_sample h refl, of 70 71 "[sample_seller]"]
    by blast
qed

text \<open>
  C9: a request whose amount is absent, zero, negative or not a number is answered 400
  "Valid amount is required" and leaves the collection as it was; and whatever the request,
  the handler either leaves the collection as it was or stores the seller with one
  withdrawal appended whose amount is the requested one and is positive.
\<close>

theorem withdrawal_amount_validated:
  "(amount_in = None \<or> (\<exists>a. amount_in = Some a \<and> (num_falsy a \<or> num_le a (Fin 0))) \<longrightarrow>
      post_withdrawals t_req t_save amount_in s sellers =
        (respond 400 ''Valid amount is required'' NoDetail, sellers)) \<and>
   (snd (post_withdrawals t_req t_save amount_in s sellers) = sellers \<or>
    (\<exists>w. num_greater (amount w) (Fin 0) \<and> amount_in = Some (amount w) \<and>
         snd (post_withdrawals t_req t_save amount_in s sellers) =
           snd (save t_save (s\<lparr>withdrawals := withdrawals s @ [w]\<rparr>) sellers)))"
proof (cases amount_in)
  case None
  then show ?thesis
    by (simp add: post_withdrawals_def)
next
  case (Some a)
  show ?thesis
  proof (cases "num_falsy a \<or> num_le a (Fin 0) \<or> num_greater a (availableBalance s)")
    case True
    with Some show ?thesis
      by (auto simp: post_withdrawals_def)
  next
    case False
    define w where
      "w = \<lparr>amount = a, requestDate = t_req, w_status = WPending,
            w_bankDetails = bankDetails s, completedDate = None, w_notes = None\<rparr>"
    have "num_greater a (Fin 0)"
      using False by (cases a) (auto simp: num_greater_def num_falsy_def num_le_def)
    then have "num_greater (amount w) (Fin 0)" and "amount_in = Some (amount w)"
      using Some by (simp_all add: w_def)
    moreover have "snd (post_withdrawals t_req t_save amount_in s sellers) =
        snd (save t_save (s\<lparr>withdrawals := withdrawals s @ [w]\<rparr>) sellers)"
      using False Some by (simp add: post_withdrawals_def Let_def w_def bank_details_copy)
    ultimately show ?thesis
      using Some False by auto
  qed
qed

theorem withdrawal_amount_validated_witness:
  "post_withdrawals 70 71 None sample_seller [sample_seller] =
     (respond 400 ''Valid amount is required'' NoDetail, [sample_seller]) \<and>
   post_withdrawals 70 71 (Some (Fin (- 3))) sample_seller [sample_seller] =
     (respond 400 ''Valid amount is required'' NoDetail, [sample_seller]) \<and>
   post_withdrawals 70 71 (Some (Fin 0)) sample_seller [sample_seller] =
     (respond 400 ''Valid amount is required'' NoDetail, [sample_seller])"
  using withdrawal_amount_validated [of None 70 71 sample_seller "[sample_seller]"]
    withdrawal_amount_validated [of "Some (Fin (- 3))" 70 71 sample_seller "[sample_seller]"]
    withdrawal_amount_validated [of "Some (Fin 0)" 70 71 sample_seller "[sample_seller]"]
  by (simp add: num_le_def num_falsy_def)

section \<open>Properties of the OTP generator and validator\<close>







section \<open>Properties of the email verification\<close>

text \<open>
  A document as a query returns it carries no OTP record, so for every existing seller and
  every code the validation fails with "No OTP found", the read of the counter throws, and
  the request is answered 500 with the collection as it was.
\<close>

lemma verify_email_found_hydrated:
  "verify_email_found t_now t_save otp (hydrate s) sellers =
     (respond 500 ''Error verifying email'' (ErrorText ''TypeError''), sellers)"
  by (simp add: verify_email_found_def hydrate_def holds_def validateOTP_def)

lemma verify_email_existing_seller:
  assumes "\<not> falsy e" "\<not> falsy p" "findOne_email toLowerCase (str e) sellers = Some s"
  shows "verify_email toLowerCase t_now t_save e p sellers =
           (respond 500 ''Error verifying email'' (ErrorText ''TypeError''), sellers)"
  using assms by (simp add: verify_email_def verify_email_found_hydrated)

text \<open>
  A resend to an existing seller generates a code and mails it, and stores nothing of it:
  the stored seller changes in \<open>updatedAt\<close> only, and no seller is refused as verified.
\<close>

lemma send_otp_found:
  assumes "\<not> falsy e" "findOne_email toLowerCase (str e) sellers = Some s"
  shows "send_otp toLowerCase r t_gen t_save env e sellers ms =
     (case sendOTPToEmail env (email s) (generateOTP r) (name s) ms of
        (Inl er, ms') \<Rightarrow>
          (respond 500 ''Error sending OTP'' (ErrorText (str (e_message er))),
           snd (save t_save s sellers), ms')
      | (Inr ok, ms') \<Rightarrow>
          (respond 200 ''OTP sent successfully to your email'' NoDetail,
           snd (save t_save s sellers), ms'))"
proof -
  have d: "save_document t_save
             (hydrate s\<lparr>emailVerificationOTP := Some (generateOTPWithExpiry r t_gen 10)\<rparr>)
             sellers =
           (\<lparr>doc = s\<lparr>updatedAt := t_save\<rparr>,
             emailVerificationOTP = Some (generateOTPWithExpiry r t_gen 10),
             isEmailVerified = None\<rparr>,
            snd (save t_save s sellers))"
    by (simp add: save_document_def hydrate_def fst_save)
  have c: "str (code (generateOTPWithExpiry r t_gen 10)) = generateOTP r"
    by (simp add: generateOTPWithExpiry_def str_def)
  have h: "\<not> holds (isEmailVerified (hydrate s))"
    by (simp add: hydrate_def holds_def)
  show ?thesis
    unfolding send_otp_def Let_def
    using assms h by (simp add: d c)
qed

lemma send_otp_stores_no_record:
  assumes "\<not> falsy e" "findOne_email toLowerCase (str e) sellers = Some s"
  shows "findById (sid s) (fst (snd (send_otp toLowerCase r t_gen t_save env e sellers ms))) =
           Some (s\<lparr>updatedAt := t_save\<rparr>)"
  by (simp add: send_otp_found [OF assms] findById_save split: prod.split sum.split)

text \<open>
  The body of the handler on a document that did carry a record (none does, under the
  schema as it is): a failed validation with the counter at 4 or more is answered 429, and
  the matching code is accepted whatever the counter says, the counter being read on the
  failure branch only.
\<close>

lemma verify_email_found_failure_when_locked:
  assumes "\<not> holds (isEmailVerified d)"
    and "emailVerificationOTP d = Some st" "attempts st = Some k" "4 \<le> k"
    and "\<not> valid (validateOTP t (Some st) p)"
  shows "fst (verify_email_found t t_save p d sellers) =
           respond 429 ''Too many failed attempts. Please request a new OTP.'' NoDetail"
  using assms by (simp add: verify_email_found_def Let_def)

lemma verify_email_found_matching_code_ignores_counter:
  assumes "c \<noteq> []" "\<not> holds (isEmailVerified d)"
    and "emailVerificationOTP d = Some st" "code st = Some c" "\<not> date_after t (expiresAt st)"
  shows "status_code (fst (verify_email_found t t_save c d sellers)) = 200"
  using assms
  by (simp add: verify_email_found_def Let_def validateOTP_def falsy_def respond_def)

lemma sample_lower_asha: "sample_lower ''asha@example.com'' = ''asha@example.com''"
  by code_simp

lemma digits_numeral:
  "digits (numeral k) =
     (if (numeral k :: nat) < 10 then [digit_char (numeral k)]
      else digits (numeral k div 10) @ [digit_char (numeral k mod 10)])"
  by (rule digits.simps)

lemma digit_chars:
  "digit_char 0 = CHR ''0''" "digit_char 5 = CHR ''5''"
  by code_simp+

lemma generateOTP_half: "generateOTP (1 / 2) = ''550000''"
  by (simp add: generateOTP_def toString_def digits_numeral digit_chars)

lemma otp_issued_value:
  "otp_issued =
     (respond 200 ''OTP sent successfully to your email'' NoDetail,
      [pending_seller\<lparr>updatedAt := 901\<rparr>],
      \<lparr>oauth2ClientInstance = True, gmailInstance = True, calls = 1,
       sent = [\<lparr>m_from = ''admin@example.com'', m_to = ''asha@example.com'',
                m_subject = ''Email Verification - OTP for Seller Registration'',
                m_html = OtpHtml ''Asha'' ''550000''\<rparr>],
       slept = []\<rparr>)"
proof -
  have e: "\<not> falsy (Some ''asha@example.com'')"
    by (simp add: falsy_def)
  have f: "findOne_email sample_lower (str (Some ''asha@example.com'')) [pending_seller] =
             Some pending_seller"
    by (simp add: findOne_email_def str_def sample_lower_asha pending_seller_def
        sample_seller_def)
  have s: "snd (save 901 pending_seller [pending_seller]) = [pending_seller\<lparr>updatedAt := 901\<rparr>]"
    by (simp add: save_def Let_def)
  have n: "email pending_seller = ''asha@example.com''" "name pending_seller = ''Asha''"
    by (simp_all add: pending_seller_def sample_seller_def)
  have m: "sendOTPToEmail good_env ''asha@example.com'' ''550000'' ''Asha'' new_mailer =
      (Inr True,
       \<lparr>oauth2ClientInstance = True, gmailInstance = True, calls = 1,
        sent = [\<lparr>m_from = ''admin@example.com'', m_to = ''asha@example.com'',
                 m_subject = ''Email Verification - OTP for Seller Registration'',
                 m_html = OtpHtml ''Asha'' ''550000''\<rparr>],
        slept = []\<rparr>)"
    by (simp add: sendOTPToEmail_def sendOTPEmail_def getGmailClient_def getOAuth2Client_def
        messages_send_def good_env_def new_mailer_def falsy_def str_def)
  show ?thesis
    unfolding otp_issued_def send_otp_found [OF e f] n generateOTP_half m s
    by simp
qed

lemma wrong_attempts_no_effect:
  "findOne_email sample_lower ''asha@example.com'' sellers = Some s \<Longrightarrow>
   wrong_attempts n sellers = sellers"
proof (induction n)
  case 0
  then show ?case by simp
next
  case (Suc n)
  have "verify_email sample_lower 1000 1000 (Some ''asha@example.com'') (Some ''000000'') sellers =
          (respond 500 ''Error verifying email'' (ErrorText ''TypeError''), sellers)"
    using Suc.prems by (intro verify_email_existing_seller) (simp_all add: falsy_def str_def)
  then show ?case
    using Suc by simp
qed

text \<open>
  C1 is not met by the handler. The pending seller asks for an OTP, which is generated and
  mailed (the code is \<^verbatim>\<open>550000\<close>) while the stored seller changes in \<open>updatedAt\<close> only. The
  first verification request is answered 500, and so are the fifth and the sixth with the
  wrong code \<^verbatim>\<open>000000\<close> and the sixth with the mailed code: no request is answered 429.
\<close>

theorem verification_never_locks:
  "fst otp_issued = respond 200 ''OTP sent successfully to your email'' NoDetail \<and>
   map m_html (sent (snd (snd otp_issued))) = [OtpHtml ''Asha'' ''550000''] \<and>
   fst (snd otp_issued) = [pending_seller\<lparr>updatedAt := 901\<rparr>] \<and>
   fst (verify_email sample_lower 1000 1000 (Some ''asha@example.com'') (Some ''000000'')
          (fst (snd otp_issued))) =
     respond 500 ''Error verifying email'' (ErrorText ''TypeError'') \<and>
   fst (verify_email sample_lower 1000 1000 (Some ''asha@example.com'') (Some ''000000'')
          (wrong_attempts 4 (fst (snd otp_issued)))) =
     respond 500 ''Error verifying email'' (ErrorText ''TypeError'') \<and>
   fst (verify_email sample_lower 1000 1000 (Some ''asha@example.com'') (Some ''000000'')
          (wrong_attempts 5 (fst (snd otp_issued)))) =
     respond 500 ''Error verifying email'' (ErrorText ''TypeError'') \<and>
   fst (verify_email sample_lower 1000 1000 (Some ''asha@example.com'') (Some ''550000'')
          (wrong_attempts 5 (fst (snd otp_issued)))) =
     respond 500 ''Error verifying email'' (ErrorText ''TypeError'')"
proof -
  have i: "fst (snd otp_issued) = [pending_seller\<lparr>updatedAt := 901\<rparr>]"
    by (simp add: otp_issued_value)
  have f: "findOne_email sample_lower ''asha@example.com'' (fst (snd otp_issued)) =
             Some (pending_seller\<lparr>updatedAt := 901\<rparr>)"
    by (simp add: i findOne_email_def sample_lower_asha pending_seller_def sample_seller_def)
  have w: "wrong_attempts n (fst (snd otp_issued)) = fst (snd otp_issued)" for n
    using f by (rule wrong_attempts_no_effect)
  have v: "fst (verify_email sample_lower 1000 1000 (Some ''asha@example.com'') (Some p)
                  (fst (snd otp_issued))) =
             respond 500 ''Error verifying email'' (ErrorText ''TypeError'')"
    if "p \<noteq> []" for p
    using that f
      verify_email_existing_seller [where toLowerCase = sample_lower
        and e = "Some ''asha@example.com''" and p = "Some p" and sellers = "fst (snd otp_issued)"
        and t_now = 1000 and t_save = 1000]
    by (simp add: falsy_def str_def)
  show ?thesis
    using v [of "''000000''"] v [of "''550000''"]
    by (simp add: w) (simp add: otp_issued_value)
qed

section \<open>Properties of the admin transitions\<close>

text \<open>What each handler answers and stores when the seller exists, whatever the mailer does.\<close>

lemma admin_approve_found:
  assumes "findById i sellers = Some s"
  shows "admin_approve t_now t_save env i sellers ms =
     (respond 200 ''Seller approved successfully''
        (ApproveView i (name s) (email s) Approved True),
      snd (save t_save
             (s\<lparr>status := Approved, isApproved := True, approvedAt := Some t_now,
                rejectionReason := None\<rparr>) sellers),
      snd (sendApprovalEmail env (email s) (name s) ms))"
  using assms findById_sid [OF assms]
  by (simp add: admin_approve_def Let_def case_prod_unfold fst_save)

lemma admin_reject_found:
  assumes "findById i sellers = Some s" "\<not> falsy reason"
  shows "admin_reject t_save env i reason sellers ms =
     (respond 200 ''Seller rejected''
        (RejectView i (name s) (email s) Rejected (Some (str reason))),
      snd (save t_save
             (s\<lparr>status := Rejected, isApproved := False,
                rejectionReason := Some (str reason)\<rparr>) sellers),
      snd (sendRejectionEmail env (email s) (name s) (str reason) ms))"
  using assms findById_sid [OF assms(1)]
  by (simp add: admin_reject_def Let_def case_prod_unfold fst_save)

lemma admin_status_found:
  assumes "findById i sellers = Some s" "statusMap k = Some st"
  shows "admin_status t_save i (Some k) sellers =
     (respond 200 (''Seller '' @ k @ '' successfully'')
        (StatusView i (name s) st (k = ''active'')),
      snd (save t_save (s\<lparr>status := st, isApproved := (k = ''active'')\<rparr>) sellers))"
proof -
  have "k \<in> set [''active'', ''inactive'', ''suspended'']"
    using assms(2) by (auto simp: statusMap_def split: if_splits)
  then show ?thesis
    using assms findById_sid [OF assms(1)]
    by (simp add: admin_status_def Let_def case_prod_unfold fst_save str_def)
qed

lemma statusMap_active_iff: "statusMap k = Some st \<Longrightarrow> (k = ''active'') = (st = Approved)"
  by (auto simp: statusMap_def split: if_splits)

lemma statusMap_defined:
  "k \<in> set [''active'', ''inactive'', ''suspended''] \<Longrightarrow> \<exists>st. statusMap k = Some st"
  by (auto simp: statusMap_def)

text \<open>
  C2: for every seller, after an admin approval, after an admin rejection (with a reason),
  and after an admin status change to active, inactive or suspended, the stored document
  has \<open>isApproved\<close> true exactly when its status is approved.
\<close>

theorem admin_transitions_isApproved_iff_approved:
  assumes "findById i sellers = Some s"
  shows "(\<exists>s'. findById i (fst (snd (admin_approve t_now t_save env i sellers ms))) = Some s' \<and>
            (isApproved s' \<longleftrightarrow> status s' = Approved)) \<and>
         (\<not> falsy reason \<longrightarrow>
            (\<exists>s'. findById i (fst (snd (admin_reject t_save env i reason sellers ms))) = Some s' \<and>
               (isApproved s' \<longleftrightarrow> status s' = Approved))) \<and>
         (k \<in> set [''active'', ''inactive'', ''suspended''] \<longrightarrow>
            (\<exists>s'. findById i (snd (admin_status t_save i (Some k) sellers)) = Some s' \<and>
               (isApproved s' \<longleftrightarrow> status s' = Approved)))"
proof (intro conjI impI)
  show "\<exists>s'. findById i (fst (snd (admin_approve t_now t_save env i sellers ms))) = Some s' \<and>
          (isApproved s' \<longleftrightarrow> status s' = Approved)"
    using findById_sid [OF assms]
    by (simp add: admin_approve_found [OF assms] findById_save)
next
  assume "\<not> falsy reason"
  then show "\<exists>s'. findById i (fst (snd (admin_reject t_save env i reason sellers ms))) = Some s' \<and>
          (isApproved s' \<longleftrightarrow> status s' = Approved)"
    using findById_sid [OF assms]
    by (simp add: admin_reject_found [OF assms] findById_save)
next
  assume "k \<in> set [''active'', ''inactive'', ''suspended'']"
  then obtain st where st: "statusMap k = Some st"
    using statusMap_defined by blast
  show "\<exists>s'. findById i (snd (admin_status t_save i (Some k) sellers)) = Some s' \<and>
          (isApproved s' \<longleftrightarrow> status s' = Approved)"
    using findById_sid [OF assms] statusMap_active_iff [OF st]
    by (simp add: admin_status_found [OF assms st] findById_save)
qed

lemma findById_sample: "findById 1 [sample_seller] = Some sample_seller"
  by (simp add: findById_def sample_seller_def)

lemma findById_pending: "findById 1 [pending_seller] = Some pending_seller"
  by (simp add: findById_def pending_seller_def sample_seller_def)

theorem admin_transitions_isApproved_iff_approved_witness:
  "findById 1 [pending_seller] = Some pending_seller \<and>
   (\<exists>s'. findById 1 (fst (snd (admin_approve 80 81 dead_env 1 [pending_seller] new_mailer))) =
            Some s' \<and> (isApproved s' \<longleftrightarrow> status s' = Approved)) \<and>
   (\<exists>s'. findById 1
            (fst (snd (admin_reject 81 dead_env 1 (Some ''Invalid documents'') [pending_seller]
                         new_mailer))) = Some s' \<and>
          (isApproved s' \<longleftrightarrow> status s' = Approved)) \<and>
   (\<exists>s'. findById 1 (snd (admin_status 81 1 (Some ''suspended'') [pending_seller])) = Some s' \<and>
          (isApproved s' \<longleftrightarrow> status s' = Approved))"
  using findById_pending
    admin_transitions_isApproved_iff_approved [OF findById_pending,
      where t_now = 80 and t_save = 81 and env = dead_env and ms = new_mailer
        and reason = "Some ''Invalid documents''" and k = "''suspended''"]
  by (simp add: falsy_def)

text \<open>
  C10: an admin rejection of an existing seller, with a reason, stores that seller with
  \<open>status\<close>, \<open>isApproved\<close>, \<open>rejectionReason\<close> and \<open>updatedAt\<close> set and every other field as it
  was (among them \<open>approvedAt\<close>, \<open>totalEarnings\<close> and \<open>withdrawals\<close>; the properties
  \<open>emailVerificationOTP\<close> and \<open>isEmailVerified\<close>, which are not stored, read the same on the
  document before and after), and leaves every other seller of the collection as it was.
\<close>

theorem admin_reject_frame:
  assumes "findById i sellers = Some s" and "\<not> falsy reason"
    and "sellers' = fst (snd (admin_reject t_save env i reason sellers ms))"
  shows "findById i sellers' =
           Some (s\<lparr>status := Rejected, isApproved := False,
                   rejectionReason := Some (str reason), updatedAt := t_save\<rparr>) \<and>
         (\<exists>s'. findById i sellers' = Some s' \<and> approvedAt s' = approvedAt s \<and>
               totalEarnings s' = totalEarnings s \<and> withdrawals s' = withdrawals s \<and>
               emailVerificationOTP (hydrate s') = emailVerificationOTP (hydrate s) \<and>
               isEmailVerified (hydrate s') = isEmailVerified (hydrate s)) \<and>
         (\<forall>j. j \<noteq> i \<longrightarrow> findById j sellers' = findById j sellers)"
  using findById_sid [OF assms(1)]
  by (simp add: assms(3) admin_reject_found [OF assms(1,2)] findById_save hydrate_def)

theorem admin_reject_frame_witness:
  "findById 1 [sample_seller] = Some sample_seller \<and> approvedAt sample_seller = Some 50 \<and>
   findById 1
     (fst (snd (admin_reject 90 dead_env 1 (Some ''Invalid documents'') [sample_seller]
                  new_mailer))) =
     Some (sample_seller\<lparr>status := Rejected, isApproved := False,
                          rejectionReason := Some ''Invalid documents'', updatedAt := 90\<rparr>)"
proof -
  have r: "\<not> falsy (Some ''Invalid documents'')"
    by (simp add: falsy_def)
  have a: "approvedAt sample_seller = Some 50"
    by (simp add: sample_seller_def)
  show ?thesis
    using a findById_sample admin_reject_frame [OF findById_sample r refl, of 90 dead_env new_mailer]
    by (simp add: str_def)
qed

section \<open>Properties of the notification sender\<close>

text \<open>
  The retry helper with three attempts: two network errors, then a success, give the
  success, after sleeps of \<open>d\<close> and \<open>2 * d\<close>.
\<close>

lemma retryWithBackoff_third_attempt:
  assumes "fn sa = (Inl ea, sb)" "isNetworkError ea"
    and "fn (on_sleep d sb) = (Inl eb, sc)" "isNetworkError eb"
    and "fn (on_sleep (d * 2) sc) = (r, sd)"
  shows "retryWithBackoff fn on_sleep 3 d sa =
           (case r of Inl ec \<Rightarrow> Inl ec | Inr v \<Rightarrow> Inr (Some v), sd)"
proof -
  have 3: "retry_loop fn on_sleep 3 d 3 (on_sleep (d * 2) sc) =
             (case r of Inl ec \<Rightarrow> Inl ec | Inr v \<Rightarrow> Inr (Some v), sd)"
    by (subst retry_loop.simps) (simp add: assms split: sum.split)
  have 2: "retry_loop fn on_sleep 3 d (Suc (Suc 0)) (on_sleep d sb) =
             (case r of Inl ec \<Rightarrow> Inl ec | Inr v \<Rightarrow> Inr (Some v), sd)"
    using 3 by (subst retry_loop.simps) (simp add: assms numeral_3_eq_3)
  show ?thesis
    unfolding retryWithBackoff_def
    using 2 by (subst retry_loop.simps) (simp add: assms)
qed

text \<open>A failure that is not a network error is rethrown at once, after one call.\<close>

lemma retryWithBackoff_not_network:
  assumes "fn st = (Inl e, st')" "\<not> isNetworkError e" "Suc 0 \<le> n"
  shows "retryWithBackoff fn on_sleep n d st = (Inl e, st')"
  unfolding retryWithBackoff_def
  by (subst retry_loop.simps) (simp add: assms)

text \<open>One attempt of the retried function, when the OAuth variables are set.\<close>

lemma getGmailClient_ready:
  assumes "oauth_vars env"
  shows "\<exists>st'. getGmailClient env st = Inr st' \<and> gmailInstance st' \<and>
           calls st' = calls st \<and> sent st' = sent st \<and> slept st' = slept st"
  using assms by (simp add: getGmailClient_def getOAuth2Client_def)

lemma send_attempt_fails:
  assumes "oauth_vars env" "provider env (calls st) = Fails e"
  shows "\<exists>st'. send_attempt env m st = (Inl e, st') \<and> calls st' = calls st + 1 \<and>
           sent st' = sent st \<and> slept st' = slept st"
proof -
  obtain st1 where "getGmailClient env st = Inr st1" "calls st1 = calls st"
      "sent st1 = sent st" "slept st1 = slept st"
    using getGmailClient_ready [OF assms(1)] by blast
  then show ?thesis
    using assms(2) by (simp add: send_attempt_def messages_send_def)
qed

lemma send_attempt_delivers:
  assumes "oauth_vars env" "provider env (calls st) = Delivered"
  shows "\<exists>st'. send_attempt env m st = (Inr (), st') \<and> calls st' = calls st + 1 \<and>
           sent st' = sent st @ [m] \<and> slept st' = slept st"
proof -
  obtain st1 where "getGmailClient env st = Inr st1" "calls st1 = calls st"
      "sent st1 = sent st" "slept st1 = slept st"
    using getGmailClient_ready [OF assms(1)] by blast
  then show ?thesis
    using assms(2) by (simp add: send_attempt_def messages_send_def)
qed

text \<open>
  The retried path, which the approval and the rejection mail take: when the provider
  fails with network errors at the next two calls and delivers at the third, the send
  succeeds after three calls and sleeps of 2000 and 4000 ms, and the message has been
  delivered once.
\<close>

lemma sendEmailViaGmailAPI_third_attempt:
  assumes env: "\<not> falsy (ADMIN_EMAIL env)" "oauth_vars env"
    and p1: "provider env (calls st) = Fails e1" "isNetworkError e1"
    and p2: "provider env (calls st + 1) = Fails e2" "isNetworkError e2"
    and p3: "provider env (calls st + 2) = Delivered"
  shows "\<exists>st'. sendEmailViaGmailAPI env to subject h st = (Inr (Some ()), st') \<and>
           calls st' = calls st + 3 \<and>
           sent st' = sent st @ [\<lparr>m_from = str (ADMIN_EMAIL env), m_to = to,
                                   m_subject = subject, m_html = h\<rparr>] \<and>
           slept st' = slept st @ [2000, 4000]"
proof -
  define m where
    "m = \<lparr>m_from = str (ADMIN_EMAIL env), m_to = to, m_subject = subject, m_html = h\<rparr>"
  obtain st1 where 1: "send_attempt env m st = (Inl e1, st1)" "calls st1 = calls st + 1"
      "sent st1 = sent st" "slept st1 = slept st"
    using send_attempt_fails [where m = m, OF env(2) p1(1)] by blast
  define sl1 where "sl1 = note_sleep 2000 st1"
  have sl1: "calls sl1 = calls st + 1" "sent sl1 = sent st" "slept sl1 = slept st @ [2000]"
    using 1 by (simp_all add: sl1_def note_sleep_def)
  have "provider env (calls sl1) = Fails e2"
    using p2(1) sl1 by simp
  then obtain st2 where 2: "send_attempt env m sl1 = (Inl e2, st2)" "calls st2 = calls sl1 + 1"
      "sent st2 = sent sl1" "slept st2 = slept sl1"
    using send_attempt_fails [where m = m and st = sl1, OF env(2)] by blast
  define sl2 where "sl2 = note_sleep (2000 * 2) st2"
  have sl2: "calls sl2 = calls st + 2" "sent sl2 = sent st"
      "slept sl2 = slept st @ [2000, 4000]"
    using 2 sl1 by (simp_all add: sl2_def note_sleep_def)
  have "provider env (calls sl2) = Delivered"
    using p3 sl2 by simp
  then obtain st3 where 3: "send_attempt env m sl2 = (Inr (), st3)" "calls st3 = calls sl2 + 1"
      "sent st3 = sent sl2 @ [m]" "slept st3 = slept sl2"
    using send_attempt_delivers [where m = m and st = sl2, OF env(2)] by blast
  have "retryWithBackoff (send_attempt env m) note_sleep 3 2000 st = (Inr (Some ()), st3)"
    using retryWithBackoff_third_attempt [where fn = "send_attempt env m" and sa = st
        and on_sleep = note_sleep and d = 2000, OF 1(1) p1(2) _ p2(2)]
      2(1) 3(1)
    by (simp add: sl1_def sl2_def)
  then show ?thesis
    using env(1) 3 sl2 by (simp add: sendEmailViaGmailAPI_def m_def)
qed

text \<open>On the same path a failure that is not a network error ends the send after one call.\<close>

lemma sendEmailViaGmailAPI_not_network:
  assumes env: "\<not> falsy (ADMIN_EMAIL env)" "oauth_vars env"
    and p1: "provider env (calls st) = Fails e1" "\<not> isNetworkError e1"
  shows "\<exists>st'. sendEmailViaGmailAPI env to subject h st = (Inl e1, st') \<and>
           calls st' = calls st + 1 \<and> sent st' = sent st \<and> slept st' = slept st"
proof -
  define m where
    "m = \<lparr>m_from = str (ADMIN_EMAIL env), m_to = to, m_subject = subject, m_html = h\<rparr>"
  obtain st1 where 1: "send_attempt env m st = (Inl e1, st1)" "calls st1 = calls st + 1"
      "sent st1 = sent st" "slept st1 = slept st"
    using send_attempt_fails [where m = m, OF env(2) p1(1)] by blast
  have "retryWithBackoff (send_attempt env m) note_sleep 3 2000 st = (Inl e1, st1)"
    using retryWithBackoff_not_network [where fn = "send_attempt env m" and st = st
        and n = 3, OF 1(1) p1(2)]
    by simp
  then show ?thesis
    using env(1) 1 by (simp add: sendEmailViaGmailAPI_def m_def)
qed

text \<open>The OTP path makes one call and stops at its failure, network error or not.\<close>

lemma sendOTPToEmail_fails:
  assumes env: "\<not> falsy (ADMIN_EMAIL env)" "oauth_vars env"
    and p1: "provider env (calls st) = Fails e1"
  shows "\<exists>st'. sendOTPToEmail env to otp userName st = (Inl e1, st') \<and>
           calls st' = calls st + 1 \<and> sent st' = sent st \<and> slept st' = slept st"
proof -
  obtain st1 where "getGmailClient env st = Inr st1" "calls st1 = calls st"
      "sent st1 = sent st" "slept st1 = slept st"
    using getGmailClient_ready [OF env(2)] by blast
  then show ?thesis
    using env(1) p1 by (simp add: sendOTPToEmail_def sendOTPEmail_def messages_send_def)
qed

lemma timeout_is_network_error: "isNetworkError timeout_error"
  by code_simp

lemma auth_is_not_network_error: "\<not> isNetworkError auth_error"
  by code_simp

lemma denied_env_facts:
  "\<not> falsy (ADMIN_EMAIL denied_env)" "oauth_vars denied_env"
  "provider denied_env k = Fails auth_error"
  by (simp_all add: denied_env_def falsy_def)

text \<open>Against the provider that refuses the credentials the approval mail stops after one
  call.\<close>

lemma sendApprovalEmail_denied:
  "\<exists>st'. sendApprovalEmail denied_env to n new_mailer = (Inl auth_error, st') \<and>
         calls st' = 1 \<and> sent st' = [] \<and> slept st' = []"
  using sendEmailViaGmailAPI_not_network [OF denied_env_facts auth_is_not_network_error,
      where st = new_mailer and to = to
        and subject = "''Your Seller Account Has Been Approved!''" and h = "ApprovalHtml n"]
  by (auto simp: sendApprovalEmail_def new_mailer_def)

lemma flaky_env_facts:
  "\<not> falsy (ADMIN_EMAIL flaky_env)" "oauth_vars flaky_env"
  "provider flaky_env (calls new_mailer) = Fails timeout_error"
  "provider flaky_env (calls new_mailer + 1) = Fails timeout_error"
  "provider flaky_env (calls new_mailer + 2) = Delivered"
  by (simp_all add: flaky_env_def new_mailer_def falsy_def)

text \<open>
  C5 is not met on the OTP path. Against the provider that times out on its first two calls
  and would deliver at the third, the timeout being a network error for the classifier,
  \<^verbatim>\<open>sendOTPToEmail\<close> makes one call, never sleeps, delivers nothing and fails with the
  timeout. Against the same provider the approval mail is delivered once, at the third
  call.
\<close>

theorem otp_mail_not_retried:
  "isNetworkError timeout_error \<and>
   sendOTPToEmail flaky_env ''asha@example.com'' ''123456'' ''Asha'' new_mailer =
     (Inl timeout_error,
      \<lparr>oauth2ClientInstance = True, gmailInstance = True, calls = 1, sent = [], slept = []\<rparr>) \<and>
   (\<exists>st'. sendApprovalEmail flaky_env ''asha@example.com'' ''Asha'' new_mailer =
            (Inr (Some ()), st') \<and> calls st' = 3 \<and> length (sent st') = 1)"
proof (intro conjI)
  show "isNetworkError timeout_error"
    by (rule timeout_is_network_error)
  show "sendOTPToEmail flaky_env ''asha@example.com'' ''123456'' ''Asha'' new_mailer =
     (Inl timeout_error,
      \<lparr>oauth2ClientInstance = True, gmailInstance = True, calls = 1, sent = [], slept = []\<rparr>)"
    by code_simp
  show "\<exists>st'. sendApprovalEmail flaky_env ''asha@example.com'' ''Asha'' new_mailer =
            (Inr (Some ()), st') \<and> calls st' = 3 \<and> length (sent st') = 1"
    using sendEmailViaGmailAPI_third_attempt [OF flaky_env_facts(1,2,3) timeout_is_network_error
        flaky_env_facts(4) timeout_is_network_error flaky_env_facts(5),
        of "''asha@example.com''" "''Your Seller Account Has Been Approved!''"
          "ApprovalHtml ''Asha''"]
    by (auto simp: sendApprovalEmail_def new_mailer_def)
qed

section \<open>Notification failures and the transitions they are attached to\<close>

text \<open>What the signup handler answers and stores for a complete body with a new email and a
  new Aadhaar number, whatever the mailer does.\<close>

lemma signup_created:
  assumes "\<not> falsy (b_name b)" "\<not> falsy (b_email b)" "\<not> falsy (b_phone b)"
    "\<not> falsy (b_password b)" "\<not> falsy (b_aadhaarNumber b)" "\<not> falsy (b_aadhaarDocument b)"
    "\<not> falsy (b_bankName b)" "\<not> falsy (b_accountHolder b)" "\<not> falsy (b_accountNumber b)"
    "\<not> falsy (b_ifscCode b)"
    and "findOne_email (lower ctx) (str (b_email b)) sellers = None"
    and "findOne_aadhaar (str (b_aadhaarNumber b)) sellers = None"
  shows "fst (signup ctx env b sellers ms) =
           respond 201
             ''Seller registered successfully. Please verify your email with the OTP sent to your email address.''
             (SignupView (new_id ctx) (str (b_name b)) (lower ctx (str (b_email b)))
                Pending None (jwt_sign ctx (new_id ctx)))"
    and "findById (new_id ctx) (fst (snd (signup ctx env b sellers ms))) =
           Some ((new_Seller ctx b)
                   \<lparr>password := hash ctx (str (b_password b)), updatedAt := t_save2 ctx\<rparr>)"
  using assms
  by (simp_all add: signup_def Let_def case_prod_unfold save_document_simps findById_save
      new_Seller_def hydrate_def)

text \<open>Three network errors in a row exhaust the retried path: the last error is rethrown.\<close>

lemma sendEmailViaGmailAPI_exhausted:
  assumes env: "\<not> falsy (ADMIN_EMAIL env)" "oauth_vars env"
    and p1: "provider env (calls st) = Fails ea" "isNetworkError ea"
    and p2: "provider env (calls st + 1) = Fails eb" "isNetworkError eb"
    and p3: "provider env (calls st + 2) = Fails ec"
  shows "\<exists>st'. sendEmailViaGmailAPI env to subject h st = (Inl ec, st') \<and>
           calls st' = calls st + 3 \<and> sent st' = sent st"
proof -
  define m where
    "m = \<lparr>m_from = str (ADMIN_EMAIL env), m_to = to, m_subject = subject, m_html = h\<rparr>"
  obtain sb where 1: "send_attempt env m st = (Inl ea, sb)" "calls sb = calls st + 1"
      "sent sb = sent st" "slept sb = slept st"
    using send_attempt_fails [where m = m, OF env(2) p1(1)] by blast
  define sl1 where "sl1 = note_sleep 2000 sb"
  have sl1: "calls sl1 = calls st + 1" "sent sl1 = sent st"
    using 1 by (simp_all add: sl1_def note_sleep_def)
  have "provider env (calls sl1) = Fails eb"
    using p2(1) sl1 by simp
  then obtain sc where 2: "send_attempt env m sl1 = (Inl eb, sc)" "calls sc = calls sl1 + 1"
      "sent sc = sent sl1" "slept sc = slept sl1"
    using send_attempt_fails [where m = m and st = sl1, OF env(2)] by blast
  define sl2 where "sl2 = note_sleep (2000 * 2) sc"
  have sl2: "calls sl2 = calls st + 2" "sent sl2 = sent st"
    using 2 sl1 by (simp_all add: sl2_def note_sleep_def)
  have "provider env (calls sl2) = Fails ec"
    using p3 sl2 by simp
  then obtain sd where 3: "send_attempt env m sl2 = (Inl ec, sd)" "calls sd = calls sl2 + 1"
      "sent sd = sent sl2" "slept sd = slept sl2"
    using send_attempt_fails [where m = m and st = sl2, OF env(2)] by blast
  have "retryWithBackoff (send_attempt env m) note_sleep 3 2000 st = (Inl ec, sd)"
    using retryWithBackoff_third_attempt [where fn = "send_attempt env m" and sa = st
        and on_sleep = note_sleep and d = 2000, OF 1(1) p1(2) _ p2(2)]
      2(1) 3(1)
    by (simp add: sl1_def sl2_def)
  then show ?thesis
    using env(1) 3 sl2 by (simp add: sendEmailViaGmailAPI_def m_def)
qed

lemma dead_env_facts:
  "\<not> falsy (ADMIN_EMAIL dead_env)" "oauth_vars dead_env"
  "provider dead_env k = Fails timeout_error"
  by (simp_all add: dead_env_def falsy_def)

lemma sendApprovalEmail_dead:
  "fst (sendApprovalEmail dead_env to n new_mailer) = Inl timeout_error"
  using sendEmailViaGmailAPI_exhausted [OF dead_env_facts(1,2) dead_env_facts(3)
      timeout_is_network_error dead_env_facts(3) timeout_is_network_error dead_env_facts(3),
      where st = new_mailer and to = to
        and subject = "''Your Seller Account Has Been Approved!''" and h = "ApprovalHtml n"]
  by (auto simp: sendApprovalEmail_def)

lemma sendRejectionEmail_dead:
  "fst (sendRejectionEmail dead_env to n r new_mailer) = Inl timeout_error"
  using sendEmailViaGmailAPI_exhausted [OF dead_env_facts(1,2) dead_env_facts(3)
      timeout_is_network_error dead_env_facts(3) timeout_is_network_error dead_env_facts(3),
      where st = new_mailer and to = to
        and subject = "''Update on Your Seller Account Application''"
        and h = "RejectionHtml n r"]
  by (auto simp: sendRejectionEmail_def)

lemma sendOTPToEmail_dead:
  "fst (sendOTPToEmail dead_env to otp n new_mailer) = Inl timeout_error"
  using sendOTPToEmail_fails [OF dead_env_facts, where st = new_mailer and to = to
      and otp = otp and userName = n]
  by auto

lemma sample_lower_ravi: "sample_lower ''ravi@example.com'' = ''ravi@example.com''"
  by code_simp

lemma sample_body_complete:
  "\<not> falsy (b_name sample_body) \<and> \<not> falsy (b_email sample_body) \<and>
   \<not> falsy (b_phone sample_body) \<and> \<not> falsy (b_password sample_body) \<and>
   \<not> falsy (b_aadhaarNumber sample_body) \<and> \<not> falsy (b_aadhaarDocument sample_body) \<and>
   \<not> falsy (b_bankName sample_body) \<and> \<not> falsy (b_accountHolder sample_body) \<and>
   \<not> falsy (b_accountNumber sample_body) \<and> \<not> falsy (b_ifscCode sample_body) \<and>
   findOne_email sample_lower (str (b_email sample_body)) [sample_seller] = None \<and>
   findOne_aadhaar (str (b_aadhaarNumber sample_body)) [sample_seller] = None"
  by (simp add: sample_body_def falsy_def str_def findOne_email_def findOne_aadhaar_def
      sample_seller_def sample_lower_ravi)

text \<open>
  C6: whatever the mail environment and the state of the mailer, hence also when every send
  fails, (1) approving an existing seller answers 200 and stores the seller approved, with
  \<open>isApproved\<close>, \<open>approvedAt\<close> set and \<open>rejectionReason\<close> cleared; (2) rejecting an existing
  seller with a reason answers 200 and stores the seller rejected, with the reason;
  (3) a signup with every field present, a new email and a new Aadhaar number answers 201
  with the token and stores the new seller, pending and not approved, with the password
  hashed.
\<close>

theorem transitions_survive_mail_failure:
  "(findById i sellers = Some s \<longrightarrow>
      fst (admin_approve t_now t_save env i sellers ms) =
        respond 200 ''Seller approved successfully''
          (ApproveView i (name s) (email s) Approved True) \<and>
      findById i (fst (snd (admin_approve t_now t_save env i sellers ms))) =
        Some (s\<lparr>status := Approved, isApproved := True, approvedAt := Some t_now,
                rejectionReason := None, updatedAt := t_save\<rparr>)) \<and>
   (findById i sellers = Some s \<and> \<not> falsy reason \<longrightarrow>
      fst (admin_reject t_save env i reason sellers ms) =
        respond 200 ''Seller rejected''
          (RejectView i (name s) (email s) Rejected (Some (str reason))) \<and>
      findById i (fst (snd (admin_reject t_save env i reason sellers ms))) =
        Some (s\<lparr>status := Rejected, isApproved := False,
                rejectionReason := Some (str reason), updatedAt := t_save\<rparr>)) \<and>
   (\<not> falsy (b_name b) \<and> \<not> falsy (b_email b) \<and> \<not> falsy (b_phone b) \<and>
    \<not> falsy (b_password b) \<and> \<not> falsy (b_aadhaarNumber b) \<and>
    \<not> falsy (b_aadhaarDocument b) \<and> \<not> falsy (b_bankName b) \<and>
    \<not> falsy (b_accountHolder b) \<and> \<not> falsy (b_accountNumber b) \<and>
    \<not> falsy (b_ifscCode b) \<and>
    findOne_email (lower ctx) (str (b_email b)) sellers = None \<and>
    findOne_aadhaar (str (b_aadhaarNumber b)) sellers = None \<longrightarrow>
      fst (signup ctx env b sellers ms) =
        respond 201
          ''Seller registered successfully. Please verify your email with the OTP sent to your email address.''
          (SignupView (new_id ctx) (str (b_name b)) (lower ctx (str (b_email b)))
                Pending None (jwt_sign ctx (new_id ctx))) \<and>
      findById (new_id ctx) (fst (snd (signup ctx env b sellers ms))) =
        Some ((new_Seller ctx b)
                \<lparr>password := hash ctx (str (b_password b)), updatedAt := t_save2 ctx\<rparr>))"
proof (intro conjI impI)
  assume f: "findById i sellers = Some s"
  show "fst (admin_approve t_now t_save env i sellers ms) =
        respond 200 ''Seller approved successfully''
          (ApproveView i (name s) (email s) Approved True)"
    by (simp add: admin_approve_found [OF f])
  show "findById i (fst (snd (admin_approve t_now t_save env i sellers ms))) =
        Some (s\<lparr>status := Approved, isApproved := True, approvedAt := Some t_now,
                rejectionReason := None, updatedAt := t_save\<rparr>)"
    using findById_sid [OF f] by (simp add: admin_approve_found [OF f] findById_save)
next
  assume "findById i sellers = Some s \<and> \<not> falsy reason"
  then have f: "findById i sellers = Some s" and r: "\<not> falsy reason"
    by simp_all
  show "fst (admin_reject t_save env i reason sellers ms) =
        respond 200 ''Seller rejected''
          (RejectView i (name s) (email s) Rejected (Some (str reason)))"
    by (simp add: admin_reject_found [OF f r])
  show "findById i (fst (snd (admin_reject t_save env i reason sellers ms))) =
        Some (s\<lparr>status := Rejected, isApproved := False,
                rejectionReason := Some (str reason), updatedAt := t_save\<rparr>)"
    using findById_sid [OF f] by (simp add: admin_reject_found [OF f r] findById_save)
next
  assume a: "\<not> falsy (b_name b) \<and> \<not> falsy (b_email b) \<and> \<not> falsy (b_phone b) \<and>
    \<not> falsy (b_password b) \<and> \<not> falsy (b_aadhaarNumber b) \<and>
    \<not> falsy (b_aadhaarDocument b) \<and> \<not> falsy (b_bankName b) \<and>
    \<not> falsy (b_accountHolder b) \<and> \<not> falsy (b_accountNumber b) \<and>
    \<not> falsy (b_ifscCode b) \<and>
    findOne_email (lower ctx) (str (b_email b)) sellers = None \<and>
    findOne_aadhaar (str (b_aadhaarNumber b)) sellers = None"
  show "fst (signup ctx env b sellers ms) =
        respond 201
          ''Seller registered successfully. Please verify your email with the OTP sent to your email address.''
          (SignupView (new_id ctx) (str (b_name b)) (lower ctx (str (b_email b)))
                Pending None (jwt_sign ctx (new_id ctx)))"
    using a by (intro signup_created(1)) simp_all
  show "findById (new_id ctx) (fst (snd (signup ctx env b sellers ms))) =
        Some ((new_Seller ctx b)
                \<lparr>password := hash ctx (str (b_password b)), updatedAt := t_save2 ctx\<rparr>)"
    using a by (intro signup_created(2)) simp_all
qed

theorem transitions_survive_mail_failure_witness:
  "fst (sendApprovalEmail dead_env (email pending_seller) (name pending_seller) new_mailer) =
     Inl timeout_error \<and>
   fst (admin_approve 80 81 dead_env 1 [pending_seller] new_mailer) =
     respond 200 ''Seller approved successfully''
       (ApproveView 1 (name pending_seller) (email pending_seller) Approved True) \<and>
   findById 1 (fst (snd (admin_approve 80 81 dead_env 1 [pending_seller] new_mailer))) =
     Some (pending_seller\<lparr>status := Approved, isApproved := True, approvedAt := Some 80,
                           rejectionReason := None, updatedAt := 81\<rparr>) \<and>
   fst (sendRejectionEmail dead_env (email pending_seller) (name pending_seller)
          ''Invalid documents'' new_mailer) = Inl timeout_error \<and>
   fst (admin_reject 81 dead_env 1 (Some ''Invalid documents'') [pending_seller] new_mailer) =
     respond 200 ''Seller rejected''
       (RejectView 1 (name pending_seller) (email pending_seller) Rejected
          (Some ''Invalid documents'')) \<and>
   findById 1
     (fst (snd (admin_reject 81 dead_env 1 (Some ''Invalid documents'') [pending_seller]
                  new_mailer))) =
     Some (pending_seller\<lparr>status := Rejected, isApproved := False,
                           rejectionReason := Some ''Invalid documents'', updatedAt := 81\<rparr>) \<and>
   fst (sendOTPToEmail dead_env ''ravi@example.com'' (generateOTP (1 / 2)) ''Ravi'' new_mailer) =
     Inl timeout_error \<and>
   fst (signup sample_ctx dead_env sample_body [sample_seller] new_mailer) =
     respond 201
       ''Seller registered successfully. Please verify your email with the OTP sent to your email address.''
       (SignupView 2 ''Ravi'' ''ravi@example.com'' Pending None ''token'') \<and>
   map_option status
     (findById 2 (fst (snd (signup sample_ctx dead_env sample_body [sample_seller] new_mailer)))) =
     Some Pending"
proof -
  have r: "\<not> falsy (Some ''Invalid documents'')"
    by (simp add: falsy_def)
  have admin:
    "fst (admin_approve 80 81 dead_env 1 [pending_seller] new_mailer) =
       respond 200 ''Seller approved successfully''
         (ApproveView 1 (name pending_seller) (email pending_seller) Approved True) \<and>
     findById 1 (fst (snd (admin_approve 80 81 dead_env 1 [pending_seller] new_mailer))) =
       Some (pending_seller\<lparr>status := Approved, isApproved := True, approvedAt := Some 80,
                             rejectionReason := None, updatedAt := 81\<rparr>) \<and>
     fst (admin_reject 81 dead_env 1 (Some ''Invalid documents'') [pending_seller] new_mailer) =
       respond 200 ''Seller rejected''
         (RejectView 1 (name pending_seller) (email pending_seller) Rejected
            (Some ''Invalid documents'')) \<and>
     findById 1
       (fst (snd (admin_reject 81 dead_env 1 (Some ''Invalid documents'') [pending_seller]
                    new_mailer))) =
       Some (pending_seller\<lparr>status := Rejected, isApproved := False,
                             rejectionReason := Some ''Invalid documents'', updatedAt := 81\<rparr>)"
    using findById_pending r
      transitions_survive_mail_failure [where i = 1 and sellers = "[pending_seller]"
        and s = pending_seller and reason = "Some ''Invalid documents''" and env = dead_env
        and ms = new_mailer and t_now = 80 and t_save = 81]
    by (simp add: str_def)
  have new:
    "fst (signup sample_ctx dead_env sample_body [sample_seller] new_mailer) =
       respond 201
         ''Seller registered successfully. Please verify your email with the OTP sent to your email address.''
         (SignupView 2 ''Ravi'' ''ravi@example.com'' Pending None ''token'') \<and>
     map_option status
       (findById 2
          (fst (snd (signup sample_ctx dead_env sample_body [sample_seller] new_mailer)))) =
       Some Pending"
    using sample_body_complete
      transitions_survive_mail_failure [where b = sample_body and sellers = "[sample_seller]"
        and ctx = sample_ctx and env = dead_env and ms = new_mailer]
    by (simp add: sample_ctx_def sample_body_def str_def new_Seller_def sample_lower_ravi)
  show ?thesis
    using admin new sendApprovalEmail_dead sendRejectionEmail_dead sendOTPToEmail_dead
    by simp
qed

section \<open>Properties of the approval gate\<close>

text \<open>The gate lets a request through exactly for a verified token of an approved seller.\<close>

lemma requireApprovedSeller_passes_iff:
  "requireApprovedSeller jwt_verify authorization sellers = Inr s \<longleftrightarrow>
     (\<exists>tok decoded i. bearer_token authorization = Some tok \<and> tok \<noteq> [] \<and>
        jwt_verify tok = Inr decoded \<and> sellerId decoded = Some i \<and>
        findById i sellers = Some s \<and> isApproved s \<and> status s = Approved)"
  by (cases "bearer_token authorization")
     (auto simp: requireApprovedSeller_def falsy_def str_def
           split: sum.splits option.splits if_splits)

lemma requireApprovedSeller_not_approved:
  assumes "bearer_token authorization = Some tok" "tok \<noteq> []"
    and "jwt_verify tok = Inr decoded" "sellerId decoded = Some i"
    and "findById i sellers = Some s" "\<not> (isApproved s \<and> status s = Approved)"
  shows "requireApprovedSeller jwt_verify authorization sellers =
           Inl (respond 403 ''Seller account not approved. Please wait for admin approval.''
                  (SellerStatus (status s)))"
  using assms by (auto simp: requireApprovedSeller_def falsy_def str_def)

lemma requireApprovedSeller_refusals:
  "requireApprovedSeller jwt_verify authorization sellers = Inl resp \<Longrightarrow>
   status_code resp = 401 \<or> status_code resp = 404 \<or> status_code resp = 403"
  by (auto simp: requireApprovedSeller_def respond_def
           split: sum.splits option.splits if_splits)

lemma serve_refused:
  "gated r \<Longrightarrow> serve r (Inl resp) handler w = (resp, w)"
  by (simp add: serve_def)

text \<open>
  C7: on every route registered behind the gate (profile read and update, change-password,
  the product routes, the order routes, the withdrawal routes) the handler runs only when
  the bearer token verifies and resolves to an existing seller with \<open>isApproved\<close> true and
  status approved; otherwise the request is answered by the gate with 401, 404 or 403, the
  handler does not run and the state is untouched; and when the token resolves to an
  existing seller who is not approved, the answer is 403 and carries the seller's current
  status.
\<close>

theorem approval_gate_guards_business_routes:
  assumes "r \<in> set [GetProfile, PutProfile, PostChangePassword, GetProductsList, PostProducts,
                     PutProduct, DeleteProduct, GetOrdersList, PutOrder, GetWithdrawalsHistory,
                     PostWithdrawals]"
    and "g = requireApprovedSeller jwt_verify authorization sellers"
  shows "gated r \<and>
         ((\<exists>s. g = Inr s) \<longleftrightarrow>
            (\<exists>tok decoded i s. bearer_token authorization = Some tok \<and> tok \<noteq> [] \<and>
               jwt_verify tok = Inr decoded \<and> sellerId decoded = Some i \<and>
               findById i sellers = Some s \<and> isApproved s \<and> status s = Approved)) \<and>
         (\<forall>resp. g = Inl resp \<longrightarrow>
            serve r g handler w = (resp, w) \<and>
            (status_code resp = 401 \<or> status_code resp = 404 \<or> status_code resp = 403)) \<and>
         (\<forall>tok decoded i s. bearer_token authorization = Some tok \<and> tok \<noteq> [] \<and>
            jwt_verify tok = Inr decoded \<and> sellerId decoded = Some i \<and>
            findById i sellers = Some s \<and> \<not> (isApproved s \<and> status s = Approved) \<longrightarrow>
            serve r g handler w =
              (respond 403 ''Seller account not approved. Please wait for admin approval.''
                 (SellerStatus (status s)), w))"
proof (intro conjI allI impI)
  show gr: "gated r"
    using assms(1) by auto
  show "(\<exists>s. g = Inr s) \<longleftrightarrow>
          (\<exists>tok decoded i s. bearer_token authorization = Some tok \<and> tok \<noteq> [] \<and>
             jwt_verify tok = Inr decoded \<and> sellerId decoded = Some i \<and>
             findById i sellers = Some s \<and> isApproved s \<and> status s = Approved)"
    unfolding assms(2) requireApprovedSeller_passes_iff by blast
  fix resp
  assume "g = Inl resp"
  then show "serve r g handler w = (resp, w)"
    using gr by (simp add: serve_refused)
  show "status_code resp = 401 \<or> status_code resp = 404 \<or> status_code resp = 403"
    using \<open>g = Inl resp\<close> requireApprovedSeller_refusals unfolding assms(2) by blast
next
  fix tok decoded i s
  assume a: "bearer_token authorization = Some tok \<and> tok \<noteq> [] \<and>
            jwt_verify tok = Inr decoded \<and> sellerId decoded = Some i \<and>
            findById i sellers = Some s \<and> \<not> (isApproved s \<and> status s = Approved)"
  have "gated r"
    using assms(1) by auto
  moreover have "g = Inl (respond 403
      ''Seller account not approved. Please wait for admin approval.''
      (SellerStatus (status s)))"
    unfolding assms(2) using a by (intro requireApprovedSeller_not_approved) blast+
  ultimately show "serve r g handler w =
      (respond 403 ''Seller account not approved. Please wait for admin approval.''
         (SellerStatus (status s)), w)"
    by (simp add: serve_refused)
qed

lemma bearer_good: "bearer_token (Some ''Bearer good'') = Some ''good''"
  by (simp add: bearer_token_def)

theorem approval_gate_guards_business_routes_witness:
  "route_post_withdrawals sample_verify (Some ''Bearer good'') 70 71 (Some (Fin 40)) [pending_seller] =
     (respond 403 ''Seller account not approved. Please wait for admin approval.''
        (SellerStatus (status pending_seller)), [pending_seller]) \<and>
   status pending_seller = Pending \<and>
   (\<exists>s. requireApprovedSeller sample_verify (Some ''Bearer good'') [sample_seller] = Inr s)"
proof -
  have p: "\<not> (isApproved pending_seller \<and> status pending_seller = Approved)"
      "status pending_seller = Pending"
    by (simp_all add: pending_seller_def)
  have v: "sample_verify ''good'' = Inr \<lparr>sellerId = Some 1, isAdmin = False\<rparr>"
    by (simp add: sample_verify_def)
  have m: "PostWithdrawals \<in> set [GetProfile, PutProfile, PostChangePassword, GetProductsList,
      PostProducts, PutProduct, DeleteProduct, GetOrdersList, PutOrder, GetWithdrawalsHistory,
      PostWithdrawals]"
    by simp
  have "route_post_withdrawals sample_verify (Some ''Bearer good'') 70 71 (Some (Fin 40))
          [pending_seller] =
     (respond 403 ''Seller account not approved. Please wait for admin approval.''
        (SellerStatus (status pending_seller)), [pending_seller])"
    unfolding route_post_withdrawals_def
    using approval_gate_guards_business_routes [OF m refl, where jwt_verify = sample_verify
        and authorization = "Some ''Bearer good''" and sellers = "[pending_seller]"
        and w = "[pending_seller]",
        THEN conjunct2, THEN conjunct2, THEN conjunct2, rule_format,
        where tok = "''good''" and decoded = "\<lparr>sellerId = Some 1, isAdmin = False\<rparr>"
        and i = 1 and s = pending_seller]
      bearer_good v findById_pending p(1)
    by simp
  moreover have "\<exists>s. requireApprovedSeller sample_verify (Some ''Bearer good'') [sample_seller] = Inr s"
    using approval_gate_guards_business_routes [OF m refl, where jwt_verify = sample_verify
        and authorization = "Some ''Bearer good''" and sellers = "[sample_seller]",
        THEN conjunct2, THEN conjunct1]
      bearer_good v findById_sample
    by (auto simp: sample_seller_def)
  ultimately show ?thesis
    using p(2) by simp
qed

end
